theory Spec2Isabelle
  imports Main "HOL-Library.AList"
begin

section \<open>Data model of the notification service\<close>

text \<open>
  The notification service of task-flow consumes task lifecycle events from RabbitMQ
  (\<^verbatim>\<open>config/rabbitmq.js\<close>), pushes notifications to Socket.IO rooms, and keeps presence
  records and offline notification queues in Redis (\<^verbatim>\<open>config/redis.js\<close>).

  Identifiers (user ids, socket ids, task ids, room names) are JavaScript strings and are
  modelled as \<^typ>\<open>string\<close>. A template literal such as \<^verbatim>\<open>`user:${id}`\<close> is the
  concatenation \<open>''user:'' @ id\<close>. An optional property (\<^verbatim>\<open>task.assignedTo?.userId\<close>,
  \<^verbatim>\<open>task.watchers?.forEach\<close>) is an \<open>option\<close>; the truthiness test of a string is
  the test that it is not empty.
\<close>

record person =
  userId :: string
  email :: string
  name :: string

record comment =
  content :: string
  mentions :: "person list option"

record task_snapshot =
  task_id :: string
  title :: string
  status :: string
  assignedTo :: "person option"
  createdBy :: "person option"
  watchers :: "person list option"
  newComment :: "comment option"

text \<open>
  A parsed lifecycle event. \<open>actor\<close> is the event's \<^verbatim>\<open>userId\<close> property (the user who
  performed the action). A payload that parses as JSON need not carry a task:
  \<open>task = None\<close> stands for such a payload.
\<close>

record event =
  eventType :: string
  task :: "task_snapshot option"
  actor :: string
  timestamp :: string

record notification_data =
  d_taskId :: string
  d_eventType :: string
  d_task :: task_snapshot
  d_comment :: "comment option"

record notification =
  n_type :: string
  n_timestamp :: string
  n_data :: notification_data
  n_title :: string
  n_message :: string

text \<open>
  JSON values, as \<^verbatim>\<open>JSON.parse\<close> yields them. A number is a finite double; the type
  \<open>double\<close> stands for the finite doubles other than the two zeros, and \<open>PosZero\<close> is
  \<^verbatim>\<open>+0\<close>. An object is the list of its properties.
\<close>

typedecl double

datatype number = PosZero | Nonzero double

datatype json =
  JNull
  | JBool bool
  | JNum number
  | JStr string
  | JArr "json list"
  | JObj "(string \<times> json) list"

type_synonym obj = "(string \<times> json) list"

text \<open>
  JavaScript values, as a caller can pass them in a metadata object or a notification:
  the JSON data above and, besides, \<^verbatim>\<open>undefined\<close>, \<^verbatim>\<open>-0\<close>, \<^verbatim>\<open>NaN\<close>, the two
  infinities, BigInt values, Date objects (given by their ISO string) and objects that
  contain themselves.
\<close>

datatype jsval =
  VUndefined
  | VNull
  | VBool bool
  | VNum number
  | VNegZero
  | VNaN
  | VInfinity bool
  | VStr string
  | VBigInt int
  | VDate string
  | VCyclic
  | VArr "jsval list"
  | VObj "(string \<times> jsval) list"

type_synonym jsobj = "(string \<times> jsval) list"

text \<open>The user attached to a socket by the authentication middleware: id, email, role.\<close>

record user =
  uid :: string
  uemail :: string
  role :: string

record online_entry =
  oe_userId :: string
  oe_email :: string
  oe_role :: string

text \<open>
  What the service sends through Socket.IO. \<open>Room r\<close> is \<^verbatim>\<open>io.to(r).emit\<close>,
  \<open>AllSockets\<close> is \<^verbatim>\<open>io.emit\<close>, and \<open>ThisSocket i\<close> is \<^verbatim>\<open>socket.emit\<close> on the socket
  with id \<open>i\<close>.
\<close>

datatype target = Room string | AllSockets | ThisSocket string

datatype payload =
  Notification notification
  | TaskUpdate string task_snapshot string string
  | OfflineNotifications "obj list"
  | OnlineUsers "online_entry list"

datatype emission = Emit target string payload

datatype error = TypeError | SyntaxError | StoreError | WrongType

section \<open>Objects and JSON serialisation\<close>

text \<open>
  An object literal \<^verbatim>\<open>{ ...src, k: v }\<close> assigns properties from left to right.
  Assigning a property that the object has replaces its value in place; assigning a
  new one appends it (\<open>AList.update\<close>). \<open>spread dst src\<close> assigns the properties of
  \<open>src\<close> to \<open>dst\<close> in their order.
\<close>

definition spread :: "(string \<times> 'v) list \<Rightarrow> (string \<times> 'v) list \<Rightarrow> (string \<times> 'v) list" where
  "spread dst src = fold (\<lambda>(k, v). AList.update k v) src dst"

text \<open>
  \<^verbatim>\<open>JSON.stringify\<close> followed by \<^verbatim>\<open>JSON.parse\<close>: \<open>serialize v\<close> is the JSON value that
  the text written for \<open>v\<close> denotes, \<open>None\<close> when nothing is written for \<open>v\<close>, or the
  exception that \<^verbatim>\<open>JSON.stringify\<close> throws. A BigInt and an object that contains itself
  throw a TypeError. \<^verbatim>\<open>NaN\<close> and the infinities are written as \<^verbatim>\<open>null\<close>, \<^verbatim>\<open>-0\<close> as
  \<^verbatim>\<open>0\<close>, a Date as its ISO string. An \<^verbatim>\<open>undefined\<close> element of an array is written
  as \<^verbatim>\<open>null\<close>; a property whose value is \<^verbatim>\<open>undefined\<close> is left out.
\<close>

fun seq_elems :: "(error + json option) list \<Rightarrow> error + json list" where
  "seq_elems [] = Inr []"
| "seq_elems (Inl e # rs) = Inl e"
| "seq_elems (Inr jo # rs) =
     (case seq_elems rs of
        Inl e \<Rightarrow> Inl e
      | Inr js \<Rightarrow> Inr ((case jo of None \<Rightarrow> JNull | Some j \<Rightarrow> j) # js))"

fun seq_props :: "(string \<times> (error + json option)) list \<Rightarrow> error + obj" where
  "seq_props [] = Inr []"
| "seq_props ((k, Inl e) # ps) = Inl e"
| "seq_props ((k, Inr None) # ps) = seq_props ps"
| "seq_props ((k, Inr (Some j)) # ps) =
     (case seq_props ps of Inl e \<Rightarrow> Inl e | Inr kvs \<Rightarrow> Inr ((k, j) # kvs))"

primrec serialize :: "jsval \<Rightarrow> error + json option" where
  "serialize VUndefined = Inr None"
| "serialize VNull = Inr (Some JNull)"
| "serialize (VBool b) = Inr (Some (JBool b))"
| "serialize (VNum n) = Inr (Some (JNum n))"
| "serialize VNegZero = Inr (Some (JNum PosZero))"
| "serialize VNaN = Inr (Some JNull)"
| "serialize (VInfinity negative) = Inr (Some JNull)"
| "serialize (VStr s) = Inr (Some (JStr s))"
| "serialize (VBigInt i) = Inl TypeError"
| "serialize (VDate isoString) = Inr (Some (JStr isoString))"
| "serialize VCyclic = Inl TypeError"
| "serialize (VArr xs) =
     (case seq_elems (map serialize xs) of
        Inl e \<Rightarrow> Inl e
      | Inr js \<Rightarrow> Inr (Some (JArr js)))"
| "serialize (VObj kvs) =
     (case seq_props (map (map_prod id serialize) kvs) of
        Inl e \<Rightarrow> Inl e
      | Inr ps \<Rightarrow> Inr (Some (JObj ps)))"

text \<open>
  \<open>stringify ob\<close> is the document that \<^verbatim>\<open>JSON.stringify(ob)\<close> writes for an object,
  given as the value that \<^verbatim>\<open>JSON.parse\<close> reads from it.
\<close>

definition stringify :: "jsobj \<Rightarrow> error + obj" where
  "stringify ob = seq_props (map (map_prod id serialize) ob)"

text \<open>JSON data as JavaScript values: \<open>plain d\<close> is the object with the JSON document \<open>d\<close>.\<close>

primrec of_json :: "json \<Rightarrow> jsval" where
  "of_json JNull = VNull"
| "of_json (JBool b) = VBool b"
| "of_json (JNum n) = VNum n"
| "of_json (JStr s) = VStr s"
| "of_json (JArr xs) = VArr (map of_json xs)"
| "of_json (JObj kvs) = VObj (map (map_prod id of_json) kvs)"

definition plain :: "obj \<Rightarrow> jsobj" where
  "plain d = map (map_prod id of_json) d"

record socket =
  sid :: string
  suser :: "user option"
  rooms :: "string list"

section \<open>Connections and delivery (server.js)\<close>

text \<open>
  On connection the server joins the socket to its personal room and to its role room.
  These are the automatic rooms of a socket.
\<close>

definition on_connection :: "string \<Rightarrow> user \<Rightarrow> socket" where
  "on_connection i u =
     \<lparr>sid = i, suser = Some u, rooms = [''user:'' @ uid u, ''role:'' @ role u]\<rparr>"

text \<open>
  The \<^verbatim>\<open>join:room\<close> handler of socketHandlers.js: any string shorter than 100
  characters is joined, whatever room it names.
\<close>

definition join_room :: "string \<Rightarrow> socket \<Rightarrow> socket" where
  "join_room roomName s =
     (if length roomName < 100 then s\<lparr>rooms := rooms s @ [roomName]\<rparr> else s)"

fun delivered_to :: "socket \<Rightarrow> emission \<Rightarrow> bool" where
  "delivered_to s (Emit (Room r) ev p) = (r \<in> set (rooms s))"
| "delivered_to s (Emit AllSockets ev p) = True"
| "delivered_to s (Emit (ThisSocket i) ev p) = (i = sid s)"

fun event_name :: "emission \<Rightarrow> string" where
  "event_name (Emit t ev p) = ev"

fun target_of :: "emission \<Rightarrow> target" where
  "target_of (Emit t ev p) = t"

definition is_notification :: "emission \<Rightarrow> bool" where
  "is_notification e = (event_name e = ''notification'')"

definition is_task_update :: "emission \<Rightarrow> bool" where
  "is_task_update e = (event_name e = ''task:update'')"

text \<open>The targeted notifications of a list of emissions that a given socket receives.\<close>

definition notifications_for :: "socket \<Rightarrow> emission list \<Rightarrow> emission list" where
  "notifications_for s es = filter (\<lambda>e. is_notification e \<and> delivered_to s e) es"

section \<open>Recipient resolution (rabbitmq.js, handleTaskEvent)\<close>

definition to_user :: "string \<Rightarrow> notification \<Rightarrow> emission" where
  "to_user u n = Emit (Room (''user:'' @ u)) ''notification'' (Notification n)"

definition to_role :: "string \<Rightarrow> notification \<Rightarrow> emission" where
  "to_role r n = Emit (Room (''role:'' @ r)) ''notification'' (Notification n)"

text \<open>
  \<^verbatim>\<open>list.forEach(p => { if (p.userId !== userId) io.to(`user:${p.userId}`).emit(...) })\<close>
\<close>

primrec forEach_notify :: "string \<Rightarrow> notification \<Rightarrow> person list \<Rightarrow> emission list" where
  "forEach_notify a n [] = []"
| "forEach_notify a n (p # ps) =
     (if userId p \<noteq> a then [to_user (userId p) n] else []) @ forEach_notify a n ps"

text \<open>\<^verbatim>\<open>task.watchers?.forEach(...)\<close>\<close>

definition notify_watchers :: "string \<Rightarrow> notification \<Rightarrow> task_snapshot \<Rightarrow> emission list" where
  "notify_watchers a n t =
     (case watchers t of None \<Rightarrow> [] | Some ws \<Rightarrow> forEach_notify a n ws)"

text \<open>
  \<^verbatim>\<open>if (p?.userId && p.userId !== userId) io.to(`user:${p.userId}`).emit(...)\<close>,
  used for \<^verbatim>\<open>task.assignedTo\<close> and \<^verbatim>\<open>task.createdBy\<close>.
\<close>

definition notify_person :: "string \<Rightarrow> notification \<Rightarrow> person option \<Rightarrow> emission list" where
  "notify_person a n po =
     (case po of
        None \<Rightarrow> []
      | Some p \<Rightarrow> (if userId p \<noteq> [] \<and> userId p \<noteq> a then [to_user (userId p) n] else []))"

text \<open>\<^verbatim>\<open>if (task.newComment?.mentions) task.newComment.mentions.forEach(...)\<close>\<close>

definition notify_mentions :: "string \<Rightarrow> notification \<Rightarrow> task_snapshot \<Rightarrow> emission list" where
  "notify_mentions a n t =
     (case newComment t of
        None \<Rightarrow> []
      | Some c \<Rightarrow> (case mentions c of None \<Rightarrow> [] | Some ms \<Rightarrow> forEach_notify a n ms))"

definition broadcast_task_update :: "event \<Rightarrow> task_snapshot \<Rightarrow> emission" where
  "broadcast_task_update ev t =
     Emit AllSockets ''task:update'' (TaskUpdate (eventType ev) t (actor ev) (timestamp ev))"

text \<open>
  \<open>handleTaskEvent now ev\<close> returns the emissions of one call in order, or the exception
  it throws. \<open>now\<close> is the value of \<^verbatim>\<open>new Date().toISOString()\<close>. Reading \<^verbatim>\<open>task._id\<close>
  of a missing task throws a TypeError before anything is emitted. The \<^verbatim>\<open>default\<close>
  branch of the switch returns before the final \<^verbatim>\<open>io.emit('task:update', ...)\<close>.
  \<open>mk_notification\<close> is the notification object that the function starts from, with
  the title and message that each branch assigns.
\<close>

definition mk_notification ::
  "string \<Rightarrow> event \<Rightarrow> task_snapshot \<Rightarrow> string \<Rightarrow> string \<Rightarrow> notification" where
  "mk_notification now ev t ttl msg =
     \<lparr>n_type = ''task_update'', n_timestamp = now,
      n_data = \<lparr>d_taskId = task_id t, d_eventType = eventType ev, d_task = t, d_comment = None\<rparr>,
      n_title = ttl, n_message = msg\<rparr>"

text \<open>The notification object of each branch of the switch, after its title and message are set.\<close>

definition created_notification :: "string \<Rightarrow> event \<Rightarrow> task_snapshot \<Rightarrow> notification" where
  "created_notification now ev t =
     mk_notification now ev t ''New Task Created''
       (''Task \"'' @ title t @ ''\" has been created'')"

definition assigned_notification :: "string \<Rightarrow> event \<Rightarrow> task_snapshot \<Rightarrow> notification" where
  "assigned_notification now ev t =
     (created_notification now ev t)
       \<lparr>n_message := ''You have been assigned a new task: \"'' @ title t @ ''\"''\<rparr>"

definition updated_notification :: "string \<Rightarrow> event \<Rightarrow> task_snapshot \<Rightarrow> notification" where
  "updated_notification now ev t =
     mk_notification now ev t ''Task Updated''
       (''Task \"'' @ title t @ ''\" has been updated'')"

definition status_notification :: "string \<Rightarrow> event \<Rightarrow> task_snapshot \<Rightarrow> notification" where
  "status_notification now ev t =
     mk_notification now ev t ''Task Status Changed''
       (''Task \"'' @ title t @ ''\" status changed to '' @ status t)"

definition comment_notification :: "string \<Rightarrow> event \<Rightarrow> task_snapshot \<Rightarrow> notification" where
  "comment_notification now ev t =
     (mk_notification now ev t ''New Comment Added''
        (''New comment on task \"'' @ title t @ ''\"''))
     \<lparr>n_data := \<lparr>d_taskId = task_id t, d_eventType = eventType ev,
                 d_task = t, d_comment = newComment t\<rparr>\<rparr>"

definition mention_notification :: "string \<Rightarrow> event \<Rightarrow> task_snapshot \<Rightarrow> notification" where
  "mention_notification now ev t =
     (comment_notification now ev t)
       \<lparr>n_title := ''You were mentioned'',
        n_message := ''You were mentioned in a comment on task \"'' @ title t @ ''\"''\<rparr>"

definition deleted_notification :: "string \<Rightarrow> event \<Rightarrow> task_snapshot \<Rightarrow> notification" where
  "deleted_notification now ev t =
     mk_notification now ev t ''Task Deleted''
       (''Task \"'' @ title t @ ''\" has been deleted'')"

text \<open>The targeted emissions of each branch, in the order of the source.\<close>

definition on_created :: "string \<Rightarrow> event \<Rightarrow> task_snapshot \<Rightarrow> emission list" where
  "on_created now ev t =
     notify_person (actor ev) (assigned_notification now ev t) (assignedTo t)
     @ [to_role ''project_manager'' (created_notification now ev t),
        to_role ''admin'' (created_notification now ev t)]"

definition on_updated :: "string \<Rightarrow> event \<Rightarrow> task_snapshot \<Rightarrow> emission list" where
  "on_updated now ev t =
     notify_watchers (actor ev) (updated_notification now ev t) t
     @ notify_person (actor ev) (updated_notification now ev t) (assignedTo t)"

definition on_status_changed :: "string \<Rightarrow> event \<Rightarrow> task_snapshot \<Rightarrow> emission list" where
  "on_status_changed now ev t =
     notify_watchers (actor ev) (status_notification now ev t) t
     @ notify_person (actor ev) (status_notification now ev t) (createdBy t)
     @ notify_person (actor ev) (status_notification now ev t) (assignedTo t)"

definition on_comment_added :: "string \<Rightarrow> event \<Rightarrow> task_snapshot \<Rightarrow> emission list" where
  "on_comment_added now ev t =
     notify_watchers (actor ev) (comment_notification now ev t) t
     @ notify_mentions (actor ev) (mention_notification now ev t) t"

definition on_deleted :: "string \<Rightarrow> event \<Rightarrow> task_snapshot \<Rightarrow> emission list" where
  "on_deleted now ev t =
     notify_watchers (actor ev) (deleted_notification now ev t) t
     @ notify_person (actor ev) (deleted_notification now ev t) (assignedTo t)"

definition handleTaskEvent :: "string \<Rightarrow> event \<Rightarrow> error + emission list" where
  "handleTaskEvent now ev =
     (case task ev of
        None \<Rightarrow> Inl TypeError
      | Some t \<Rightarrow>
          if eventType ev = ''created'' then
            Inr (on_created now ev t @ [broadcast_task_update ev t])
          else if eventType ev = ''updated'' then
            Inr (on_updated now ev t @ [broadcast_task_update ev t])
          else if eventType ev = ''status_changed'' then
            Inr (on_status_changed now ev t @ [broadcast_task_update ev t])
          else if eventType ev = ''comment_added'' then
            Inr (on_comment_added now ev t @ [broadcast_task_update ev t])
          else if eventType ev = ''deleted'' then
            Inr (on_deleted now ev t @ [broadcast_task_update ev t])
          else Inr [])"

definition emissions_of :: "error + emission list \<Rightarrow> emission list" where
  "emissions_of r = (case r of Inl e \<Rightarrow> [] | Inr es \<Rightarrow> es)"

section \<open>Event consumer (rabbitmq.js, startConsumers)\<close>

text \<open>
  How the consumer settles a delivery: \<open>Ack\<close> is \<^verbatim>\<open>channel.ack(msg)\<close> and
  \<open>Nack allUpTo requeue\<close> is \<^verbatim>\<open>channel.nack(msg, allUpTo, requeue)\<close>.
\<close>

datatype settlement = Ack | Nack bool bool

text \<open>
  The body of the consume callback for a delivered message with the given content.
  \<open>parse\<close> stands for \<^verbatim>\<open>JSON.parse(msg.content.toString())\<close> followed by reading the
  event's properties; it either throws or yields an event. The callback's
  \<^verbatim>\<open>try\<close> block parses, handles and acknowledges; its \<^verbatim>\<open>catch\<close> block rejects
  without requeue.
\<close>

definition process_message ::
  "(string \<Rightarrow> error + event) \<Rightarrow> string \<Rightarrow> string \<Rightarrow> emission list \<times> settlement" where
  "process_message parse now body =
     (case parse body of
        Inl err \<Rightarrow> ([], Nack False False)
      | Inr ev \<Rightarrow>
          (case handleTaskEvent now ev of
             Inl err \<Rightarrow> ([], Nack False False)
           | Inr es \<Rightarrow> (es, Ack)))"

text \<open>The callback itself: \<^verbatim>\<open>if (msg) { ... }\<close>.\<close>

definition on_message ::
  "(string \<Rightarrow> error + event) \<Rightarrow> string \<Rightarrow> string option
     \<Rightarrow> emission list \<times> settlement option" where
  "on_message parse now msg =
     (case msg of
        None \<Rightarrow> ([], None)
      | Some body \<Rightarrow> (let (es, a) = process_message parse now body in (es, Some a)))"

text \<open>
  The broker's side of a settlement, for the queue \<^verbatim>\<open>task_notifications\<close>: an
  acknowledged delivery and a rejected delivery without requeue leave the queue for
  good; a rejected delivery with requeue goes back to the head of the queue.
\<close>

fun broker_settle :: "settlement \<Rightarrow> string \<Rightarrow> string list \<Rightarrow> string list" where
  "broker_settle Ack m q = q"
| "broker_settle (Nack allUpTo requeue) m q = (if requeue then m # q else q)"

text \<open>
  Consuming with the callback above for at most \<open>n\<close> deliveries: the log of
  deliveries with their settlements, and the queue that remains.
\<close>

fun run_consumer ::
  "(string \<Rightarrow> error + event) \<Rightarrow> string \<Rightarrow> nat \<Rightarrow> string list
     \<Rightarrow> (string \<times> settlement) list \<times> string list" where
  "run_consumer parse now 0 q = ([], q)"
| "run_consumer parse now (Suc n) [] = ([], [])"
| "run_consumer parse now (Suc n) (m # q) =
     (case on_message parse now (Some m) of
        (es, None) \<Rightarrow> ([], m # q)
      | (es, Some a) \<Rightarrow>
          (let (log, q') = run_consumer parse now n (broker_settle a m q)
           in ((m, a) # log, q')))"

section \<open>The Redis client (redis.js)\<close>

text \<open>
  The module keeps one variable \<^verbatim>\<open>client\<close>, initially \<^verbatim>\<open>null\<close>. A client gives access
  to a Redis keyspace: every key holds a string, a set or a list, and may carry a time
  to live in seconds. The strings that this module stores are the texts that
  \<^verbatim>\<open>JSON.stringify\<close> writes for objects; a stored string is represented by the JSON
  object that \<^verbatim>\<open>JSON.parse\<close> reads from it, so that reading is the identity and
  writing is \<open>stringify\<close>. The passing of time, and with it the expiry of keys, is not
  part of the model: the time to live is only recorded.
\<close>

datatype rvalue = RStr obj | RSet "string list" | RList "obj list"

record entry =
  val :: rvalue
  ttl :: "nat option"

type_synonym store = "string \<rightharpoonup> entry"

type_synonym client = "store option"

text \<open>
  An asynchronous computation on the module state: it ends with a value or with an
  exception, and leaves a state behind in both cases.
\<close>

type_synonym 'a io = "client \<Rightarrow> (error + 'a) \<times> client"

definition resolve :: "'a \<Rightarrow> 'a io" where
  "resolve x c = (Inr x, c)"

text \<open>\<^verbatim>\<open>const x = await m; ...\<close>: an exception of \<open>m\<close> skips the rest.\<close>

definition await :: "'a io \<Rightarrow> ('a \<Rightarrow> 'b io) \<Rightarrow> 'b io" where
  "await m k c = (case m c of (Inl e, c') \<Rightarrow> (Inl e, c') | (Inr x, c') \<Rightarrow> k x c')"

text \<open>\<^verbatim>\<open>try { m } catch (err) { h }\<close>: the handler runs in the state that \<open>m\<close> left.\<close>

definition try_catch :: "'a io \<Rightarrow> (error \<Rightarrow> 'a io) \<Rightarrow> 'a io" where
  "try_catch m h c = (case m c of (Inl e, c') \<Rightarrow> h e c' | (Inr x, c') \<Rightarrow> (Inr x, c'))"

text \<open>
  A call of a client method. On a \<^verbatim>\<open>null\<close> client the property access throws a
  TypeError. Otherwise the call may raise (the server is unreachable, the connection
  drops): this is the flag \<open>f\<close>, chosen by the environment. A call that does not raise
  runs the command \<open>cmd\<close> on the keyspace; the command itself fails with \<open>WrongType\<close>
  on a key that holds a value of another kind.
\<close>

definition client_call :: "bool \<Rightarrow> (store \<Rightarrow> (error + 'a) \<times> store) \<Rightarrow> 'a io" where
  "client_call f cmd c =
     (case c of
        None \<Rightarrow> (Inl TypeError, None)
      | Some st \<Rightarrow>
          (if f then (Inl StoreError, Some st)
           else (case cmd st of (r, st') \<Rightarrow> (r, Some st'))))"

text \<open>
  The outcomes of the successive client calls of one operation are given by a list of
  flags: call number \<open>i\<close> raises when the list has a \<open>True\<close> at position \<open>i\<close>. The
  empty list is a reachable store on which no call raises.
\<close>

definition raises :: "bool list \<Rightarrow> nat \<Rightarrow> bool" where
  "raises fs i = (i < length fs \<and> fs ! i)"

subsection \<open>Redis commands\<close>

definition setEx :: "bool \<Rightarrow> string \<Rightarrow> nat \<Rightarrow> obj \<Rightarrow> unit io" where
  "setEx f key secs v =
     client_call f (\<lambda>st. (Inr (), st(key \<mapsto> \<lparr>val = RStr v, ttl = Some secs\<rparr>)))"

definition get :: "bool \<Rightarrow> string \<Rightarrow> obj option io" where
  "get f key =
     client_call f (\<lambda>st.
       case st key of
         None \<Rightarrow> (Inr None, st)
       | Some e \<Rightarrow> (case val e of RStr v \<Rightarrow> (Inr (Some v), st) | _ \<Rightarrow> (Inl WrongType, st)))"

definition del :: "bool \<Rightarrow> string \<Rightarrow> unit io" where
  "del f key = client_call f (\<lambda>st. (Inr (), st(key := None)))"

definition sAdd :: "bool \<Rightarrow> string \<Rightarrow> string \<Rightarrow> unit io" where
  "sAdd f key m =
     client_call f (\<lambda>st.
       case st key of
         None \<Rightarrow> (Inr (), st(key \<mapsto> \<lparr>val = RSet [m], ttl = None\<rparr>))
       | Some e \<Rightarrow>
           (case val e of
              RSet ms \<Rightarrow> (Inr (), st(key \<mapsto> e\<lparr>val := RSet (List.insert m ms)\<rparr>))
            | _ \<Rightarrow> (Inl WrongType, st)))"

definition sRem :: "bool \<Rightarrow> string \<Rightarrow> string \<Rightarrow> unit io" where
  "sRem f key m =
     client_call f (\<lambda>st.
       case st key of
         None \<Rightarrow> (Inr (), st)
       | Some e \<Rightarrow>
           (case val e of
              RSet ms \<Rightarrow>
                (if removeAll m ms = [] then (Inr (), st(key := None))
                 else (Inr (), st(key \<mapsto> e\<lparr>val := RSet (removeAll m ms)\<rparr>)))
            | _ \<Rightarrow> (Inl WrongType, st)))"

definition sMembers :: "bool \<Rightarrow> string \<Rightarrow> string list io" where
  "sMembers f key =
     client_call f (\<lambda>st.
       case st key of
         None \<Rightarrow> (Inr [], st)
       | Some e \<Rightarrow> (case val e of RSet ms \<Rightarrow> (Inr ms, st) | _ \<Rightarrow> (Inl WrongType, st)))"

text \<open>
  The elements of a list between two indices, both inclusive, as LRANGE and LTRIM
  count them: a negative index counts from the end of the list.
\<close>

definition lrange :: "'a list \<Rightarrow> int \<Rightarrow> int \<Rightarrow> 'a list" where
  "lrange xs start stop =
     (let n = int (length xs);
          a = (if start < 0 then max 0 (n + start) else start);
          b = (if stop < 0 then n + stop else min stop (n - 1))
      in if b < a then [] else take (nat (b - a + 1)) (drop (nat a) xs))"

definition lPush :: "bool \<Rightarrow> string \<Rightarrow> obj \<Rightarrow> unit io" where
  "lPush f key v =
     client_call f (\<lambda>st.
       case st key of
         None \<Rightarrow> (Inr (), st(key \<mapsto> \<lparr>val = RList [v], ttl = None\<rparr>))
       | Some e \<Rightarrow>
           (case val e of
              RList xs \<Rightarrow> (Inr (), st(key \<mapsto> e\<lparr>val := RList (v # xs)\<rparr>))
            | _ \<Rightarrow> (Inl WrongType, st)))"

definition lTrim :: "bool \<Rightarrow> string \<Rightarrow> int \<Rightarrow> int \<Rightarrow> unit io" where
  "lTrim f key start stop =
     client_call f (\<lambda>st.
       case st key of
         None \<Rightarrow> (Inr (), st)
       | Some e \<Rightarrow>
           (case val e of
              RList xs \<Rightarrow>
                (if lrange xs start stop = [] then (Inr (), st(key := None))
                 else (Inr (), st(key \<mapsto> e\<lparr>val := RList (lrange xs start stop)\<rparr>)))
            | _ \<Rightarrow> (Inl WrongType, st)))"

definition lRange :: "bool \<Rightarrow> string \<Rightarrow> int \<Rightarrow> int \<Rightarrow> obj list io" where
  "lRange f key start stop =
     client_call f (\<lambda>st.
       case st key of
         None \<Rightarrow> (Inr [], st)
       | Some e \<Rightarrow>
           (case val e of
              RList xs \<Rightarrow> (Inr (lrange xs start stop), st)
            | _ \<Rightarrow> (Inl WrongType, st)))"

definition expire :: "bool \<Rightarrow> string \<Rightarrow> nat \<Rightarrow> unit io" where
  "expire f key secs =
     client_call f (\<lambda>st.
       case st key of
         None \<Rightarrow> (Inr (), st)
       | Some e \<Rightarrow> (Inr (), st(key \<mapsto> e\<lparr>ttl := Some secs\<rparr>)))"

subsection \<open>Presence store\<close>

text \<open>
  \<open>now\<close> is \<^verbatim>\<open>new Date().toISOString()\<close>. The parameter \<^verbatim>\<open>userId\<close> of the source is
  written \<open>userId'\<close>, since \<open>userId\<close> is a field of \<open>person\<close>. The session document is
  \<^verbatim>\<open>{ socketId, ...userData, lastSeen: now }\<close>, serialised inside the \<^verbatim>\<open>try\<close> block
  before \<^verbatim>\<open>setEx\<close> is called.
\<close>

definition sessionData :: "string \<Rightarrow> jsobj \<Rightarrow> string \<Rightarrow> jsobj" where
  "sessionData socketId userData now =
     AList.update ''lastSeen'' (VStr now) (spread [(''socketId'', VStr socketId)] userData)"

text \<open>
  \<^verbatim>\<open>JSON.stringify(ob)\<close> as a step of an operation: it throws or yields the document,
  and does not touch the store.
\<close>

definition JSON_stringify :: "jsobj \<Rightarrow> obj io" where
  "JSON_stringify ob c = (stringify ob, c)"

definition storeUserSession ::
  "bool list \<Rightarrow> string \<Rightarrow> string \<Rightarrow> string \<Rightarrow> jsobj \<Rightarrow> unit io" where
  "storeUserSession fs now userId' socketId userData c =
     (case c of
        None \<Rightarrow> (Inr (), c)
      | Some st \<Rightarrow>
          try_catch
            (let sessionKey = ''user_session:'' @ userId'
             in await (JSON_stringify (sessionData socketId userData now))
                  (\<lambda>text. await (setEx (raises fs 0) sessionKey 3600 text)
                    (\<lambda>_. sAdd (raises fs 1) ''online_users'' userId')))
            (\<lambda>err. resolve ())
            c)"

definition removeUserSession :: "bool list \<Rightarrow> string \<Rightarrow> unit io" where
  "removeUserSession fs userId' c =
     (case c of
        None \<Rightarrow> (Inr (), c)
      | Some st \<Rightarrow>
          try_catch
            (let sessionKey = ''user_session:'' @ userId'
             in await (del (raises fs 0) sessionKey)
                  (\<lambda>_. sRem (raises fs 1) ''online_users'' userId'))
            (\<lambda>err. resolve ())
            c)"

definition getUserSession :: "bool list \<Rightarrow> string \<Rightarrow> obj option io" where
  "getUserSession fs userId' c =
     (case c of
        None \<Rightarrow> (Inr None, c)
      | Some st \<Rightarrow>
          try_catch
            (let sessionKey = ''user_session:'' @ userId'
             in await (get (raises fs 0) sessionKey) (\<lambda>sessionData. resolve sessionData))
            (\<lambda>err. resolve None)
            c)"

text \<open>
  The loop of \<open>getOnlineUsers\<close> over the members of the online set. The lookup of the
  \<open>i\<close>-th member is client call number \<open>i\<close> of the operation, so it sees the flags
  from position \<open>i\<close> on. A session that is found is pushed as
  \<^verbatim>\<open>{ userId, ...session }\<close>.
\<close>

fun for_userIds :: "bool list \<Rightarrow> nat \<Rightarrow> string list \<Rightarrow> obj list \<Rightarrow> obj list io" where
  "for_userIds fs i [] sessions c = (Inr sessions, c)"
| "for_userIds fs i (userId' # rest) sessions c =
     (case getUserSession (drop i fs) userId' c of
        (Inl e, c') \<Rightarrow> (Inl e, c')
      | (Inr session, c') \<Rightarrow>
          for_userIds fs (Suc i) rest
            (case session of
               None \<Rightarrow> sessions
             | Some s \<Rightarrow> sessions @ [spread [(''userId'', JStr userId')] s])
            c')"

definition getOnlineUsers :: "bool list \<Rightarrow> obj list io" where
  "getOnlineUsers fs c =
     (case c of
        None \<Rightarrow> (Inr [], c)
      | Some st \<Rightarrow>
          try_catch
            (await (sMembers (raises fs 0) ''online_users'')
               (\<lambda>userIds. for_userIds fs 1 userIds []))
            (\<lambda>err. resolve [])
            c)"

subsection \<open>Offline notification store\<close>

text \<open>
  \<open>ident\<close> is the generated id \<^verbatim>\<open>`${Date.now()}_${Math.random()...}`\<close>. The stored
  document is \<^verbatim>\<open>{ ...notification, id: ident, stored: true }\<close>, serialised inside the
  \<^verbatim>\<open>try\<close> block before \<^verbatim>\<open>lPush\<close> is called.
\<close>

definition notificationData :: "string \<Rightarrow> jsobj \<Rightarrow> jsobj" where
  "notificationData ident notification =
     AList.update ''stored'' (VBool True)
       (AList.update ''id'' (VStr ident) (spread [] notification))"

definition storeOfflineNotification ::
  "bool list \<Rightarrow> string \<Rightarrow> string \<Rightarrow> jsobj \<Rightarrow> unit io" where
  "storeOfflineNotification fs ident userId' notification c =
     (case c of
        None \<Rightarrow> (Inr (), c)
      | Some st \<Rightarrow>
          try_catch
            (let notificationKey = ''notifications:'' @ userId'
             in await (JSON_stringify (notificationData ident notification))
                  (\<lambda>text. await (lPush (raises fs 0) notificationKey text)
                    (\<lambda>_. await (lTrim (raises fs 1) notificationKey 0 49)
                      (\<lambda>_. expire (raises fs 2) notificationKey (7 * 24 * 60 * 60)))))
            (\<lambda>err. resolve ())
            c)"

definition getOfflineNotifications :: "bool list \<Rightarrow> string \<Rightarrow> obj list io" where
  "getOfflineNotifications fs userId' c =
     (case c of
        None \<Rightarrow> (Inr [], c)
      | Some st \<Rightarrow>
          try_catch
            (let notificationKey = ''notifications:'' @ userId'
             in await (lRange (raises fs 0) notificationKey 0 (- 1))
                  (\<lambda>notifications. resolve notifications))
            (\<lambda>err. resolve [])
            c)"

definition clearOfflineNotifications :: "bool list \<Rightarrow> string \<Rightarrow> unit io" where
  "clearOfflineNotifications fs userId' c =
     (case c of
        None \<Rightarrow> (Inr (), c)
      | Some st \<Rightarrow>
          try_catch
            (let notificationKey = ''notifications:'' @ userId'
             in del (raises fs 0) notificationKey)
            (\<lambda>err. resolve ())
            c)"

text \<open>
  The offline queue of a user as the keyspace holds it: the stored list, the empty list
  when the key is absent, and nothing when there is no client or the key holds a value
  that is not a list.
\<close>

definition queue_of :: "client \<Rightarrow> string \<Rightarrow> obj list option" where
  "queue_of c userId' =
     (case c of
        None \<Rightarrow> None
      | Some st \<Rightarrow>
          (case st (''notifications:'' @ userId') of
             None \<Rightarrow> Some []
           | Some e \<Rightarrow> (case val e of RList xs \<Rightarrow> Some xs | _ \<Rightarrow> None)))"

text \<open>The time to live that the keyspace records for the queue of a user.\<close>

definition queue_ttl :: "client \<Rightarrow> string \<Rightarrow> nat option" where
  "queue_ttl c userId' =
     (case c of
        None \<Rightarrow> None
      | Some st \<Rightarrow>
          (case st (''notifications:'' @ userId') of None \<Rightarrow> None | Some e \<Rightarrow> ttl e))"


section \<open>Socket handlers (socketHandlers.js)\<close>

text \<open>
  The handler of \<^verbatim>\<open>get:offline_notifications\<close> registered for the socket with id \<open>i\<close>
  of user \<open>u\<close>: what it emits, and the module state afterwards.
\<close>

definition on_get_offline_notifications ::
  "bool list \<Rightarrow> string \<Rightarrow> user \<Rightarrow> client \<Rightarrow> emission list \<times> client" where
  "on_get_offline_notifications fs i u c =
     (case getOfflineNotifications fs (uid u) c of
        (Inl err, c') \<Rightarrow> ([], c')
      | (Inr notifications, c') \<Rightarrow>
          (if length notifications > 0
           then ([Emit (ThisSocket i) ''notifications:offline''
                    (OfflineNotifications notifications)], c')
           else ([], c')))"

text \<open>
  The handler of \<^verbatim>\<open>get:online_users\<close>: the loop over \<^verbatim>\<open>io.sockets.sockets\<close>, pushing
  an entry for every socket that has a user and is not the requesting socket, and
  the emission of the result to the requesting socket.
\<close>

fun forEach_socket :: "socket \<Rightarrow> socket list \<Rightarrow> online_entry list \<Rightarrow> online_entry list" where
  "forEach_socket s [] onlineUsers = onlineUsers"
| "forEach_socket s (connectedSocket # rest) onlineUsers =
     forEach_socket s rest
       (case suser connectedSocket of
          None \<Rightarrow> onlineUsers
        | Some u \<Rightarrow>
            (if sid connectedSocket \<noteq> sid s
             then onlineUsers @ [\<lparr>oe_userId = uid u, oe_email = uemail u, oe_role = role u\<rparr>]
             else onlineUsers))"

definition on_get_online_users :: "socket \<Rightarrow> socket list \<Rightarrow> emission" where
  "on_get_online_users s sockets =
     Emit (ThisSocket (sid s)) ''online_users'' (OnlineUsers (forEach_socket s sockets []))"

section \<open>Example values\<close>

definition ex_task :: task_snapshot where
  "ex_task =
     \<lparr>task_id = ''T1'', title = ''Fix bug'', status = ''done'',
      assignedTo = Some \<lparr>userId = ''B'', email = ''b@example.org'', name = ''Bo''\<rparr>,
      createdBy = Some \<lparr>userId = ''C'', email = ''c@example.org'', name = ''Cy''\<rparr>,
      watchers = Some [\<lparr>userId = ''A'', email = ''a@example.org'', name = ''Al''\<rparr>,
                       \<lparr>userId = ''B'', email = ''b@example.org'', name = ''Bo''\<rparr>],
      newComment = None\<rparr>"

definition ex_status_changed :: event where
  "ex_status_changed =
     \<lparr>eventType = ''status_changed'', task = Some ex_task, actor = ''B'', timestamp = ''t0''\<rparr>"

definition ex_created_by_manager :: event where
  "ex_created_by_manager =
     \<lparr>eventType = ''created'', task = Some (ex_task\<lparr>assignedTo := None\<rparr>),
      actor = ''C'', timestamp = ''t0''\<rparr>"

definition ex_created_by_admin :: event where
  "ex_created_by_admin =
     \<lparr>eventType = ''created'', task = Some ex_task, actor = ''C'', timestamp = ''t0''\<rparr>"

definition ex_archived :: event where
  "ex_archived =
     \<lparr>eventType = ''archived'', task = Some ex_task, actor = ''C'', timestamp = ''t0''\<rparr>"

definition ex_user :: "string \<Rightarrow> string \<Rightarrow> user" where
  "ex_user i r = \<lparr>uid = i, uemail = i @ ''@example.org'', role = r\<rparr>"

definition ex_parse :: "string \<Rightarrow> error + event" where
  "ex_parse body =
     (if body = ''status'' then Inr ex_status_changed
      else if body = ''{}'' then
        Inr \<lparr>eventType = [], task = None, actor = [], timestamp = []\<rparr>
      else Inl SyntaxError)"

definition ex_userData :: obj where
  "ex_userData = [(''email'', JStr ''a@example.org''), (''role'', JStr ''admin''),
                  (''connectedAt'', JStr ''t0'')]"

definition ex_full_queue :: client where
  "ex_full_queue =
     Some [''notifications:u1'' \<mapsto> \<lparr>val = RList (replicate 50 []), ttl = Some 10\<rparr>]"

definition ex_sockets :: "socket list" where
  "ex_sockets =
     [on_connection ''s1'' (ex_user ''A'' ''admin''),
      on_connection ''s2'' (ex_user ''B'' ''team_member''),
      \<lparr>sid = ''s3'', suser = None, rooms = []\<rparr>,
      on_connection ''s4'' (ex_user ''A'' ''admin'')]"

section \<open>Properties of recipient resolution\<close>

text \<open>A list of emissions all addressed to user channels of users other than \<open>a\<close>.\<close>

definition others_only :: "string \<Rightarrow> emission list \<Rightarrow> bool" where
  "others_only a ts = (\<forall>e\<in>set ts. \<exists>u n. u \<noteq> a \<and> e = to_user u n)"

definition event_types :: "string list" where
  "event_types = [''created'', ''updated'', ''status_changed'', ''comment_added'', ''deleted'']"

lemma forEach_notify_elem:
  "e \<in> set (forEach_notify a n ps) \<Longrightarrow> \<exists>u. u \<noteq> a \<and> e = to_user u n"
  by (induction ps) (auto split: if_splits)

lemma notify_watchers_elem:
  "e \<in> set (notify_watchers a n t) \<Longrightarrow> \<exists>u. u \<noteq> a \<and> e = to_user u n"
  by (auto simp: notify_watchers_def split: option.splits dest: forEach_notify_elem)

lemma notify_mentions_elem:
  "e \<in> set (notify_mentions a n t) \<Longrightarrow> \<exists>u. u \<noteq> a \<and> e = to_user u n"
  by (auto simp: notify_mentions_def split: option.splits dest: forEach_notify_elem)

lemma notify_person_elem:
  "e \<in> set (notify_person a n po) \<Longrightarrow> \<exists>u. u \<noteq> a \<and> e = to_user u n"
  by (auto simp: notify_person_def split: option.splits if_splits)

lemmas notify_elems = notify_watchers_elem notify_mentions_elem notify_person_elem

lemma on_updated_elem: "e \<in> set (on_updated now ev t) \<Longrightarrow> \<exists>u n. u \<noteq> actor ev \<and> e = to_user u n"
  unfolding on_updated_def set_append Un_iff by (blast dest: notify_elems)

lemma on_status_changed_elem:
  "e \<in> set (on_status_changed now ev t) \<Longrightarrow> \<exists>u n. u \<noteq> actor ev \<and> e = to_user u n"
  unfolding on_status_changed_def set_append Un_iff by (blast dest: notify_elems)

lemma on_comment_added_elem:
  "e \<in> set (on_comment_added now ev t) \<Longrightarrow> \<exists>u n. u \<noteq> actor ev \<and> e = to_user u n"
  unfolding on_comment_added_def set_append Un_iff by (blast dest: notify_elems)

lemma on_deleted_elem:
  "e \<in> set (on_deleted now ev t) \<Longrightarrow> \<exists>u n. u \<noteq> actor ev \<and> e = to_user u n"
  unfolding on_deleted_def set_append Un_iff by (blast dest: notify_elems)

lemma to_user_not_delivered:
  "u \<noteq> uid a \<Longrightarrow> \<not> delivered_to (on_connection i a) (to_user u n)"
  by (simp add: to_user_def on_connection_def)

lemma to_user_target: "u \<noteq> a \<Longrightarrow> target_of (to_user u n) \<noteq> Room (''user:'' @ a)"
  by (simp add: to_user_def)

lemma to_role_target: "target_of (to_role r n) \<noteq> Room (''user:'' @ a)"
  by (simp add: to_role_def)

lemma bc_not_notification: "\<not> is_notification (broadcast_task_update ev t)"
  by (simp add: is_notification_def broadcast_task_update_def)

lemma to_role_delivered:
  "delivered_to (on_connection i a) (to_role r n) \<longleftrightarrow> role a = r"
  by (auto simp add: to_role_def on_connection_def)

lemma is_notification_to [simp]: "is_notification (to_user u n)" "is_notification (to_role r n)"
  by (simp_all add: is_notification_def to_user_def to_role_def)

lemma notifications_for_users_only:
  assumes "\<And>e. e \<in> set es \<Longrightarrow> \<exists>u n. u \<noteq> uid a \<and> e = to_user u n"
  shows "notifications_for (on_connection i a) es = []"
  unfolding notifications_for_def filter_empty_conv
  using assms to_user_not_delivered by blast


lemma on_created_elem:
  assumes "e \<in> set (on_created now ev t)"
  shows "(\<exists>u n. u \<noteq> actor ev \<and> e = to_user u n)
     \<or> e = to_role ''project_manager'' (created_notification now ev t)
     \<or> e = to_role ''admin'' (created_notification now ev t)"
proof -
  from assms consider
      (p) "e \<in> set (notify_person (actor ev) (assigned_notification now ev t) (assignedTo t))"
    | (m) "e = to_role ''project_manager'' (created_notification now ev t)"
    | (a) "e = to_role ''admin'' (created_notification now ev t)"
    unfolding on_created_def by auto
  then show ?thesis
  proof cases
    case p
    from notify_person_elem [OF this] show ?thesis by blast
  next
    case m then show ?thesis by blast
  next
    case a then show ?thesis by blast
  qed
qed

lemma notifications_for_simps:
  "notifications_for s [] = []"
  "notifications_for s (e # es) =
     (if is_notification e \<and> delivered_to s e then [e] else []) @ notifications_for s es"
  "notifications_for s (xs @ ys) = notifications_for s xs @ notifications_for s ys"
  by (simp_all add: notifications_for_def)

lemma others_only_branches:
  "others_only (actor ev) (on_updated now ev t)"
  "others_only (actor ev) (on_status_changed now ev t)"
  "others_only (actor ev) (on_comment_added now ev t)"
  "others_only (actor ev) (on_deleted now ev t)"
  unfolding others_only_def
  by (intro ballI, erule on_updated_elem on_status_changed_elem on_comment_added_elem
                         on_deleted_elem)+

lemma handleTaskEvent_cases:
  assumes "handleTaskEvent now ev = Inr es"
  obtains (created) t where "task ev = Some t" "eventType ev = ''created''"
                            "es = on_created now ev t @ [broadcast_task_update ev t]"
  | (known) t ts where "task ev = Some t" "eventType ev \<noteq> ''created''"
        "es = ts @ [broadcast_task_update ev t]" "others_only (actor ev) ts"
  | (unknown) "eventType ev \<noteq> ''created''" "es = []"
proof -
  from assms obtain t where t: "task ev = Some t"
    by (auto simp: handleTaskEvent_def split: option.splits)
  consider (c) "eventType ev = ''created''"
    | (u) "eventType ev \<noteq> ''created''" "eventType ev = ''updated''"
    | (s) "eventType ev \<noteq> ''created''" "eventType ev = ''status_changed''"
    | (a) "eventType ev \<noteq> ''created''" "eventType ev = ''comment_added''"
    | (d) "eventType ev \<noteq> ''created''" "eventType ev = ''deleted''"
    | (x) "eventType ev \<noteq> ''created''" "eventType ev \<noteq> ''updated''"
          "eventType ev \<noteq> ''status_changed''" "eventType ev \<noteq> ''comment_added''"
          "eventType ev \<noteq> ''deleted''"
    by blast
  then show thesis
  proof cases
    case c
    with assms t have "es = on_created now ev t @ [broadcast_task_update ev t]"
      by (simp add: handleTaskEvent_def)
    with t c show thesis by (rule created)
  next
    case u
    with assms t have "es = on_updated now ev t @ [broadcast_task_update ev t]"
      by (simp add: handleTaskEvent_def)
    with t u(1) show thesis using others_only_branches(1) by (rule known)
  next
    case s
    with assms t have "es = on_status_changed now ev t @ [broadcast_task_update ev t]"
      by (simp add: handleTaskEvent_def)
    with t s(1) show thesis using others_only_branches(2) by (rule known)
  next
    case a
    with assms t have "es = on_comment_added now ev t @ [broadcast_task_update ev t]"
      by (simp add: handleTaskEvent_def)
    with t a(1) show thesis using others_only_branches(3) by (rule known)
  next
    case d
    with assms t have "es = on_deleted now ev t @ [broadcast_task_update ev t]"
      by (simp add: handleTaskEvent_def)
    with t d(1) show thesis using others_only_branches(4) by (rule known)
  next
    case x
    with assms t have "es = []"
      by (simp add: handleTaskEvent_def)
    with x(1) show thesis by (rule unknown)
  qed
qed

lemma others_only_target:
  assumes "others_only a ts" and "e \<in> set ts"
  shows "target_of e \<noteq> Room (''user:'' @ a)"
proof -
  from assms obtain u n where u: "u \<noteq> a" and e: "e = to_user u n"
    unfolding others_only_def by fast
  from u show ?thesis unfolding e by (rule to_user_target)
qed

lemma others_only_notifications_for:
  "others_only (uid u) ts \<Longrightarrow> notifications_for (on_connection i u) ts = []"
  unfolding others_only_def by (rule notifications_for_users_only) blast

lemma others_only_notify_person: "others_only a (notify_person a n po)"
  unfolding others_only_def by (blast dest: notify_person_elem)

lemma notifications_for_bc:
  "notifications_for s [broadcast_task_update ev t] = []"
  by (simp add: notifications_for_def bc_not_notification)

lemma notifications_for_roles:
  "notifications_for (on_connection i u) [to_role ''project_manager'' n, to_role ''admin'' m] \<noteq> []
   \<longleftrightarrow> role u = ''project_manager'' \<or> role u = ''admin''"
  unfolding notifications_for_simps to_role_delivered by auto

text \<open>
  Claim C1, as amended. For every event that \<open>handleTaskEvent\<close> processes, whatever its
  type, no \<^verbatim>\<open>notification\<close> emission is addressed to the user channel of the acting
  user. The role channels are not filtered: a socket of the acting user that is in its
  two automatic rooms receives a targeted notification exactly when the event is
  \<^verbatim>\<open>created\<close> and the actor's role is \<^verbatim>\<open>project_manager\<close> or \<^verbatim>\<open>admin\<close>.
\<close>

theorem handleTaskEvent_excludes_actor_channel:
  assumes "handleTaskEvent now ev = Inr es"
  shows "(\<forall>e \<in> set es. is_notification e \<longrightarrow> target_of e \<noteq> Room (''user:'' @ actor ev))
       \<and> (uid u = actor ev \<longrightarrow>
            (notifications_for (on_connection i u) es \<noteq> [] \<longleftrightarrow>
               eventType ev = ''created''
               \<and> (role u = ''project_manager'' \<or> role u = ''admin'')))"
  using assms
proof (cases rule: handleTaskEvent_cases)
  case (created t)
  have 1: "\<forall>e \<in> set es. is_notification e \<longrightarrow> target_of e \<noteq> Room (''user:'' @ actor ev)"
  proof (intro ballI impI)
    fix e assume "e \<in> set es" and n: "is_notification e"
    with created(3) have "e \<in> set (on_created now ev t)"
      using bc_not_notification by auto
    from on_created_elem [OF this] show "target_of e \<noteq> Room (''user:'' @ actor ev)"
    proof (elim disjE exE conjE)
      fix u n assume "u \<noteq> actor ev" and e: "e = to_user u n"
      then show ?thesis unfolding e by (intro to_user_target)
    next
      assume e: "e = to_role ''project_manager'' (created_notification now ev t)"
      show ?thesis unfolding e by (rule to_role_target)
    next
      assume e: "e = to_role ''admin'' (created_notification now ev t)"
      show ?thesis unfolding e by (rule to_role_target)
    qed
  qed
  have 2: "notifications_for (on_connection i u) es \<noteq> [] \<longleftrightarrow>
             (role u = ''project_manager'' \<or> role u = ''admin'')" if "uid u = actor ev"
  proof -
    have "notifications_for (on_connection i u)
            (notify_person (actor ev) (assigned_notification now ev t) (assignedTo t)) = []"
      using that others_only_notify_person others_only_notifications_for by metis
    then have "notifications_for (on_connection i u) es =
       notifications_for (on_connection i u)
          [to_role ''project_manager'' (created_notification now ev t),
           to_role ''admin'' (created_notification now ev t)]"
      unfolding created(3) on_created_def notifications_for_simps(3) notifications_for_bc
      by simp
    then show ?thesis using notifications_for_roles by simp
  qed
  from 1 2 created(2) show ?thesis by simp
next
  case (known t ts)
  have 1: "\<forall>e \<in> set es. is_notification e \<longrightarrow> target_of e \<noteq> Room (''user:'' @ actor ev)"
  proof (intro ballI impI)
    fix e assume e: "e \<in> set es" and n: "is_notification e"
    with known(3) have "e \<in> set ts" using bc_not_notification by auto
    with known(4) show "target_of e \<noteq> Room (''user:'' @ actor ev)"
      by (rule others_only_target)
  qed
  have 2: "notifications_for (on_connection i u) es = []" if "uid u = actor ev"
    unfolding known(3) notifications_for_simps(3) notifications_for_bc
    using known(4) that others_only_notifications_for by simp
  from 1 2 known(2) show ?thesis by simp
next
  case unknown
  then show ?thesis by (simp add: notifications_for_def)
qed

lemma ex_status_changed_run:
  "handleTaskEvent ''now'' ex_status_changed =
     Inr [to_user ''A'' (status_notification ''now'' ex_status_changed ex_task),
          to_user ''C'' (status_notification ''now'' ex_status_changed ex_task),
          broadcast_task_update ex_status_changed ex_task]"
  by (simp add: handleTaskEvent_def ex_status_changed_def on_status_changed_def
                notify_watchers_def notify_person_def ex_task_def)

text \<open>
  The theorem for C1 at the status change of task T1 by B, who is watcher and assignee:
  the watcher A and the creator C are notified, and B's socket receives nothing.
\<close>

theorem handleTaskEvent_excludes_actor_channel_witness:
  "handleTaskEvent ''now'' ex_status_changed =
     Inr [to_user ''A'' (status_notification ''now'' ex_status_changed ex_task),
          to_user ''C'' (status_notification ''now'' ex_status_changed ex_task),
          broadcast_task_update ex_status_changed ex_task]
   \<and> uid (ex_user ''B'' ''admin'') = actor ex_status_changed
   \<and> notifications_for (on_connection ''s1'' (ex_user ''B'' ''admin''))
         [to_user ''A'' (status_notification ''now'' ex_status_changed ex_task),
          to_user ''C'' (status_notification ''now'' ex_status_changed ex_task),
          broadcast_task_update ex_status_changed ex_task] = []"
  using handleTaskEvent_excludes_actor_channel
          [OF ex_status_changed_run, of "ex_user ''B'' ''admin''" "''s1''"]
        ex_status_changed_run
  by (simp add: ex_user_def ex_status_changed_def)

text \<open>
  Claim C1 as stated fails: a project manager who creates a task receives the generic
  notification of that creation through the channel \<^verbatim>\<open>role:project_manager\<close>.
\<close>

theorem actor_receives_role_notification:
  "eventType ex_created_by_manager = ''created''
   \<and> uid (ex_user ''C'' ''project_manager'') = actor ex_created_by_manager
   \<and> notifications_for (on_connection ''s1'' (ex_user ''C'' ''project_manager''))
        (emissions_of (handleTaskEvent ''now'' ex_created_by_manager))
      = [Emit (Room ''role:project_manager'') ''notification''
           (Notification (created_notification ''now'' ex_created_by_manager
                            (ex_task\<lparr>assignedTo := None\<rparr>)))]"
  by (simp add: ex_created_by_manager_def ex_user_def handleTaskEvent_def emissions_of_def
                on_created_def notify_person_def notifications_for_def on_connection_def
                to_role_def is_notification_def broadcast_task_update_def)

lemma is_task_update_to [simp]:
  "\<not> is_task_update (to_user u n)" "\<not> is_task_update (to_role r n)"
  "is_task_update (broadcast_task_update ev t)"
  by (simp_all add: is_task_update_def to_user_def to_role_def broadcast_task_update_def)

lemma others_only_no_task_update:
  assumes "others_only a ts" shows "filter is_task_update ts = []"
  unfolding filter_empty_conv
proof
  fix e assume "e \<in> set ts"
  with assms obtain u n where e: "e = to_user u n" unfolding others_only_def by fast
  show "\<not> is_task_update e" unfolding e by simp
qed

lemma on_created_no_task_update: "filter is_task_update (on_created now ev t) = []"
  by (simp add: on_created_def others_only_no_task_update [OF others_only_notify_person])

lemma handle_unknown:
  assumes "task ev = Some t" and "eventType ev \<notin> set event_types"
  shows "handleTaskEvent now ev = Inr []"
  using assms by (simp add: handleTaskEvent_def event_types_def)

lemma handle_no_task: "task ev = None \<Longrightarrow> handleTaskEvent now ev = Inl TypeError"
  by (simp add: handleTaskEvent_def)

lemma handle_known:
  assumes "task ev = Some t" and "eventType ev \<in> set event_types"
  shows "\<exists>es. handleTaskEvent now ev = Inr es
          \<and> filter is_task_update es
              = [Emit AllSockets ''task:update''
                   (TaskUpdate (eventType ev) t (actor ev) (timestamp ev))]"
proof -
  from assms(1) have "\<exists>es. handleTaskEvent now ev = Inr es"
    by (simp add: handleTaskEvent_def)
  then obtain es where es: "handleTaskEvent now ev = Inr es" ..
  from es have "filter is_task_update es
              = [Emit AllSockets ''task:update''
                   (TaskUpdate (eventType ev) t (actor ev) (timestamp ev))]"
  proof (cases rule: handleTaskEvent_cases)
    case (created t')
    with assms show ?thesis
      by (simp add: on_created_no_task_update) (simp add: broadcast_task_update_def)
  next
    case (known t' ts)
    with assms show ?thesis
      by (simp add: others_only_no_task_update) (simp add: broadcast_task_update_def)
  next
    case unknown
    with es assms show ?thesis
      unfolding event_types_def handleTaskEvent_def by (auto split: if_splits)
  qed
  with es show ?thesis by blast
qed

text \<open>
  Claim C4, as amended. For an event that carries a task and whose type is one of the
  five known types, \<open>handleTaskEvent\<close> returns normally and the \<^verbatim>\<open>task:update\<close>
  emissions of the call are exactly one broadcast to all sockets with the event type,
  the task snapshot, the actor and the event's timestamp. For an event that carries a
  task and has any other type, it returns normally without any emission at all. For a
  payload without a task it throws a TypeError and emits nothing.
\<close>

theorem handleTaskEvent_task_update:
  "(task ev = Some t \<and> eventType ev \<in> set event_types \<longrightarrow>
      (\<exists>es. handleTaskEvent now ev = Inr es
         \<and> filter is_task_update es
             = [Emit AllSockets ''task:update''
                  (TaskUpdate (eventType ev) t (actor ev) (timestamp ev))]))
   \<and> (task ev = Some t \<and> eventType ev \<notin> set event_types \<longrightarrow> handleTaskEvent now ev = Inr [])
   \<and> (task ev = None \<longrightarrow> handleTaskEvent now ev = Inl TypeError)"
proof (intro conjI impI)
  assume "task ev = Some t \<and> eventType ev \<in> set event_types"
  then show "\<exists>es. handleTaskEvent now ev = Inr es
         \<and> filter is_task_update es
             = [Emit AllSockets ''task:update''
                  (TaskUpdate (eventType ev) t (actor ev) (timestamp ev))]"
    by (elim conjE) (rule handle_known)
next
  assume "task ev = Some t \<and> eventType ev \<notin> set event_types"
  then show "handleTaskEvent now ev = Inr []"
    by (elim conjE) (rule handle_unknown)
next
  assume "task ev = None"
  then show "handleTaskEvent now ev = Inl TypeError" by (rule handle_no_task)
qed

text \<open>
  The theorem for C4 at the status change of task T1, at an event of the unknown type
  \<^verbatim>\<open>archived\<close>, and at a status change without a task.
\<close>

theorem handleTaskEvent_task_update_witness:
  "task ex_status_changed = Some ex_task \<and> eventType ex_status_changed \<in> set event_types
   \<and> (\<exists>es. handleTaskEvent ''now'' ex_status_changed = Inr es
         \<and> filter is_task_update es =
             [Emit AllSockets ''task:update'' (TaskUpdate ''status_changed'' ex_task ''B'' ''t0'')])
   \<and> task (ex_archived\<lparr>actor := ''A''\<rparr>) = Some ex_task
   \<and> eventType (ex_archived\<lparr>actor := ''A''\<rparr>) \<notin> set event_types
   \<and> handleTaskEvent ''now'' (ex_archived\<lparr>actor := ''A''\<rparr>) = Inr []
   \<and> task (ex_status_changed\<lparr>task := None\<rparr>) = None
   \<and> handleTaskEvent ''now'' (ex_status_changed\<lparr>task := None\<rparr>) = Inl TypeError"
proof -
  have h: "task ex_status_changed = Some ex_task" "eventType ex_status_changed \<in> set event_types"
    "task (ex_archived\<lparr>actor := ''A''\<rparr>) = Some ex_task"
    "eventType (ex_archived\<lparr>actor := ''A''\<rparr>) \<notin> set event_types"
    "task (ex_status_changed\<lparr>task := None\<rparr>) = None"
    by (simp_all add: ex_status_changed_def ex_archived_def event_types_def)
  from handleTaskEvent_task_update [of ex_status_changed ex_task "''now''"]
       handleTaskEvent_task_update [of "ex_archived\<lparr>actor := ''A''\<rparr>" ex_task "''now''"]
       handleTaskEvent_task_update [of "ex_status_changed\<lparr>task := None\<rparr>" _ "''now''"]
       h
  show ?thesis by (simp add: ex_status_changed_def)
qed

text \<open>
  Claim C4 as stated fails: an event of the unknown type \<^verbatim>\<open>archived\<close> is handled without
  an exception and without any emission, so no \<^verbatim>\<open>task:update\<close> is broadcast.
\<close>

theorem unknown_event_type_no_task_update:
  "eventType ex_archived = ''archived'' \<and> task ex_archived = Some ex_task
   \<and> handleTaskEvent ''now'' ex_archived = Inr []
   \<and> filter is_task_update (emissions_of (handleTaskEvent ''now'' ex_archived)) = []"
  by (simp add: ex_archived_def handleTaskEvent_def emissions_of_def)

lemma handle_created:
  assumes "task ev = Some t" and "eventType ev = ''created''"
  shows "handleTaskEvent now ev = Inr (on_created now ev t @ [broadcast_task_update ev t])"
  using assms by (simp add: handleTaskEvent_def)

lemma created_emissions_received:
  "notifications_for s
     [Emit (Room (''user:'' @ u)) ''notification'' (Notification a),
      Emit (Room ''role:project_manager'') ''notification'' (Notification g),
      Emit (Room ''role:admin'') ''notification'' (Notification g),
      Emit AllSockets ''task:update'' x]
     = [] \<longleftrightarrow>
   ''user:'' @ u \<notin> set (rooms s) \<and> ''role:project_manager'' \<notin> set (rooms s)
   \<and> ''role:admin'' \<notin> set (rooms s)"
  by (simp add: notifications_for_def is_notification_def)

lemma created_emissions_own_socket:
  assumes "u \<noteq> uid a"
  shows "notifications_for (on_connection i a)
     [Emit (Room (''user:'' @ u)) ''notification'' (Notification n),
      Emit (Room ''role:project_manager'') ''notification'' (Notification g),
      Emit (Room ''role:admin'') ''notification'' (Notification g),
      Emit AllSockets ''task:update'' x]
     = [] \<longleftrightarrow> role a \<noteq> ''project_manager'' \<and> role a \<noteq> ''admin''"
  using assms
  by (auto simp add: notifications_for_def is_notification_def on_connection_def)

text \<open>
  Claim C3, as amended. A \<^verbatim>\<open>created\<close> event whose assignee has a non-empty id different
  from the actor produces exactly four emissions, in this order: the assignment message
  as a notification to the assignee's user channel, the generic message as a
  notification to \<^verbatim>\<open>role:project_manager\<close> and to \<^verbatim>\<open>role:admin\<close>, and the
  \<^verbatim>\<open>task:update\<close> broadcast. None of them is addressed to the actor's user channel. A
  socket, whatever rooms it has joined, receives none of the three notifications
  exactly when it is in none of the three rooms; so a socket of the actor that is in
  its two automatic rooms only receives none exactly when the actor's role is neither
  \<^verbatim>\<open>project_manager\<close> nor \<^verbatim>\<open>admin\<close>.
\<close>

theorem created_event_recipients:
  assumes "task ev = Some t" and "eventType ev = ''created''"
    and "assignedTo t = Some p" and "userId p \<noteq> []" and "userId p \<noteq> actor ev"
  shows "handleTaskEvent now ev =
           Inr [Emit (Room (''user:'' @ userId p)) ''notification''
                  (Notification (assigned_notification now ev t)),
                Emit (Room ''role:project_manager'') ''notification''
                  (Notification (created_notification now ev t)),
                Emit (Room ''role:admin'') ''notification''
                  (Notification (created_notification now ev t)),
                Emit AllSockets ''task:update''
                  (TaskUpdate (eventType ev) t (actor ev) (timestamp ev))]
         \<and> created_notification now ev t
             = \<lparr>n_type = ''task_update'', n_timestamp = now,
                n_data = \<lparr>d_taskId = task_id t, d_eventType = eventType ev, d_task = t,
                          d_comment = None\<rparr>,
                n_title = ''New Task Created'',
                n_message = ''Task \"'' @ title t @ ''\" has been created''\<rparr>
         \<and> assigned_notification now ev t
             = \<lparr>n_type = ''task_update'', n_timestamp = now,
                n_data = \<lparr>d_taskId = task_id t, d_eventType = eventType ev, d_task = t,
                          d_comment = None\<rparr>,
                n_title = ''New Task Created'',
                n_message = ''You have been assigned a new task: \"'' @ title t @ ''\"''\<rparr>
         \<and> (notifications_for s
                [Emit (Room (''user:'' @ userId p)) ''notification''
                   (Notification (assigned_notification now ev t)),
                 Emit (Room ''role:project_manager'') ''notification''
                   (Notification (created_notification now ev t)),
                 Emit (Room ''role:admin'') ''notification''
                   (Notification (created_notification now ev t)),
                 Emit AllSockets ''task:update''
                   (TaskUpdate (eventType ev) t (actor ev) (timestamp ev))] = []
               \<longleftrightarrow> ''user:'' @ userId p \<notin> set (rooms s)
                   \<and> ''role:project_manager'' \<notin> set (rooms s)
                   \<and> ''role:admin'' \<notin> set (rooms s))
         \<and> (uid u = actor ev \<longrightarrow>
              (notifications_for (on_connection i u)
                [Emit (Room (''user:'' @ userId p)) ''notification''
                   (Notification (assigned_notification now ev t)),
                 Emit (Room ''role:project_manager'') ''notification''
                   (Notification (created_notification now ev t)),
                 Emit (Room ''role:admin'') ''notification''
                   (Notification (created_notification now ev t)),
                 Emit AllSockets ''task:update''
                   (TaskUpdate (eventType ev) t (actor ev) (timestamp ev))] = []
               \<longleftrightarrow> role u \<noteq> ''project_manager'' \<and> role u \<noteq> ''admin''))"
proof -
  have run: "handleTaskEvent now ev =
           Inr [Emit (Room (''user:'' @ userId p)) ''notification''
                  (Notification (assigned_notification now ev t)),
                Emit (Room ''role:project_manager'') ''notification''
                  (Notification (created_notification now ev t)),
                Emit (Room ''role:admin'') ''notification''
                  (Notification (created_notification now ev t)),
                Emit AllSockets ''task:update''
                  (TaskUpdate (eventType ev) t (actor ev) (timestamp ev))]"
    unfolding handle_created [OF assms(1,2)] on_created_def notify_person_def
      to_user_def to_role_def broadcast_task_update_def
    using assms(3-5) by simp
  have msg2: "created_notification now ev t
             = \<lparr>n_type = ''task_update'', n_timestamp = now,
                n_data = \<lparr>d_taskId = task_id t, d_eventType = eventType ev, d_task = t,
                          d_comment = None\<rparr>,
                n_title = ''New Task Created'',
                n_message = ''Task \"'' @ title t @ ''\" has been created''\<rparr>"
    by (simp add: created_notification_def mk_notification_def)
  have msg1: "assigned_notification now ev t
             = \<lparr>n_type = ''task_update'', n_timestamp = now,
                n_data = \<lparr>d_taskId = task_id t, d_eventType = eventType ev, d_task = t,
                          d_comment = None\<rparr>,
                n_title = ''New Task Created'',
                n_message = ''You have been assigned a new task: \"'' @ title t @ ''\"''\<rparr>"
    by (simp add: assigned_notification_def created_notification_def mk_notification_def)
  note recv = created_emissions_received
                [of s "userId p" "assigned_notification now ev t" "created_notification now ev t"
                    "TaskUpdate (eventType ev) t (actor ev) (timestamp ev)"]
  have own: "uid u = actor ev \<longrightarrow>
              (notifications_for (on_connection i u)
                [Emit (Room (''user:'' @ userId p)) ''notification''
                   (Notification (assigned_notification now ev t)),
                 Emit (Room ''role:project_manager'') ''notification''
                   (Notification (created_notification now ev t)),
                 Emit (Room ''role:admin'') ''notification''
                   (Notification (created_notification now ev t)),
                 Emit AllSockets ''task:update''
                   (TaskUpdate (eventType ev) t (actor ev) (timestamp ev))] = []
               \<longleftrightarrow> role u \<noteq> ''project_manager'' \<and> role u \<noteq> ''admin'')"
  proof
    assume "uid u = actor ev"
    with assms(5) have "userId p \<noteq> uid u" by simp
    then show "notifications_for (on_connection i u)
                [Emit (Room (''user:'' @ userId p)) ''notification''
                   (Notification (assigned_notification now ev t)),
                 Emit (Room ''role:project_manager'') ''notification''
                   (Notification (created_notification now ev t)),
                 Emit (Room ''role:admin'') ''notification''
                   (Notification (created_notification now ev t)),
                 Emit AllSockets ''task:update''
                   (TaskUpdate (eventType ev) t (actor ev) (timestamp ev))] = []
               \<longleftrightarrow> role u \<noteq> ''project_manager'' \<and> role u \<noteq> ''admin''"
      by (rule created_emissions_own_socket)
  qed
  from run msg1 msg2 recv own show ?thesis by (simp only: simp_thms)
qed

text \<open>
  The theorem for C3 at a task created by C and assigned to B: a socket of C with the
  role \<^verbatim>\<open>team_member\<close> receives no notification in its automatic rooms, and receives
  one after it has joined the room \<^verbatim>\<open>role:admin\<close>.
\<close>

theorem created_event_recipients_witness:
  "task ex_created_by_admin = Some ex_task \<and> eventType ex_created_by_admin = ''created''
   \<and> assignedTo ex_task = Some \<lparr>userId = ''B'', email = ''b@example.org'', name = ''Bo''\<rparr>
   \<and> actor ex_created_by_admin = ''C''
   \<and> handleTaskEvent ''now'' ex_created_by_admin =
         Inr [Emit (Room ''user:B'') ''notification''
                (Notification (assigned_notification ''now'' ex_created_by_admin ex_task)),
              Emit (Room ''role:project_manager'') ''notification''
                (Notification (created_notification ''now'' ex_created_by_admin ex_task)),
              Emit (Room ''role:admin'') ''notification''
                (Notification (created_notification ''now'' ex_created_by_admin ex_task)),
              Emit AllSockets ''task:update'' (TaskUpdate ''created'' ex_task ''C'' ''t0'')]
   \<and> n_message (assigned_notification ''now'' ex_created_by_admin ex_task)
       = ''You have been assigned a new task: \"Fix bug\"''
   \<and> n_message (created_notification ''now'' ex_created_by_admin ex_task)
       = ''Task \"Fix bug\" has been created''
   \<and> uid (ex_user ''C'' ''team_member'') = actor ex_created_by_admin
   \<and> notifications_for (on_connection ''s1'' (ex_user ''C'' ''team_member''))
         [Emit (Room ''user:B'') ''notification''
            (Notification (assigned_notification ''now'' ex_created_by_admin ex_task)),
          Emit (Room ''role:project_manager'') ''notification''
            (Notification (created_notification ''now'' ex_created_by_admin ex_task)),
          Emit (Room ''role:admin'') ''notification''
            (Notification (created_notification ''now'' ex_created_by_admin ex_task)),
          Emit AllSockets ''task:update'' (TaskUpdate ''created'' ex_task ''C'' ''t0'')] = []
   \<and> rooms (join_room ''role:admin'' (on_connection ''s1'' (ex_user ''C'' ''team_member'')))
       = [''user:C'', ''role:team_member'', ''role:admin'']
   \<and> notifications_for (join_room ''role:admin'' (on_connection ''s1'' (ex_user ''C'' ''team_member'')))
         [Emit (Room ''user:B'') ''notification''
            (Notification (assigned_notification ''now'' ex_created_by_admin ex_task)),
          Emit (Room ''role:project_manager'') ''notification''
            (Notification (created_notification ''now'' ex_created_by_admin ex_task)),
          Emit (Room ''role:admin'') ''notification''
            (Notification (created_notification ''now'' ex_created_by_admin ex_task)),
          Emit AllSockets ''task:update'' (TaskUpdate ''created'' ex_task ''C'' ''t0'')] \<noteq> []"
proof -
  have 1: "task ex_created_by_admin = Some ex_task"
    and 2: "eventType ex_created_by_admin = ''created''"
    by (simp_all add: ex_created_by_admin_def)
  have 3: "assignedTo ex_task = Some \<lparr>userId = ''B'', email = ''b@example.org'', name = ''Bo''\<rparr>"
    by (simp add: ex_task_def)
  have 4: "userId \<lparr>userId = ''B'', email = ''b@example.org'', name = ''Bo''\<rparr> \<noteq> []"
    and 5: "userId \<lparr>userId = ''B'', email = ''b@example.org'', name = ''Bo''\<rparr>
              \<noteq> actor ex_created_by_admin"
    by (simp_all add: ex_created_by_admin_def)
  have r: "rooms (join_room ''role:admin'' (on_connection ''s1'' (ex_user ''C'' ''team_member'')))
       = [''user:C'', ''role:team_member'', ''role:admin'']"
    by (simp add: join_room_def on_connection_def ex_user_def)
  have t: "title ex_task = ''Fix bug''" by (simp add: ex_task_def)
  from created_event_recipients
         [OF 1 2 3 4 5, where now = "''now''" and u = "ex_user ''C'' ''team_member''"
            and i = "''s1''"
            and s = "join_room ''role:admin'' (on_connection ''s1'' (ex_user ''C'' ''team_member''))"]
       1 2 3 r t
  show ?thesis
    by (simp add: ex_user_def ex_created_by_admin_def notifications_for_def is_notification_def
                  on_connection_def join_room_def)
qed

text \<open>
  Claim C3 as stated fails: when the creator C has the role \<^verbatim>\<open>admin\<close>, C's socket
  receives the generic notification through the channel \<^verbatim>\<open>role:admin\<close>.
\<close>

theorem creator_with_admin_role_is_notified:
  "eventType ex_created_by_admin = ''created'' \<and> actor ex_created_by_admin = ''C''
   \<and> map_option userId (assignedTo ex_task) = Some ''B''
   \<and> uid (ex_user ''C'' ''admin'') = ''C''
   \<and> notifications_for (on_connection ''s2'' (ex_user ''C'' ''admin''))
        (emissions_of (handleTaskEvent ''now'' ex_created_by_admin))
      = [Emit (Room ''role:admin'') ''notification''
           (Notification (created_notification ''now'' ex_created_by_admin ex_task))]"
  by (simp add: ex_created_by_admin_def ex_user_def handleTaskEvent_def emissions_of_def
                on_created_def notify_person_def notifications_for_def on_connection_def
                to_role_def to_user_def is_notification_def broadcast_task_update_def ex_task_def)

section \<open>Properties of the event consumer\<close>

lemma process_message_settlement:
  "snd (process_message parse now body) = Ack
   \<or> snd (process_message parse now body) = Nack False False"
  by (simp add: process_message_def split: sum.splits)

lemma broker_settle_process:
  "broker_settle (snd (process_message parse now m)) m q = q"
  using process_message_settlement [of parse now m] by auto

lemma run_consumer_drains:
  "length q \<le> n \<Longrightarrow>
   run_consumer parse now n q = (map (\<lambda>m. (m, snd (process_message parse now m))) q, [])"
proof (induction n arbitrary: q)
  case 0
  then show ?case by simp
next
  case (Suc n)
  show ?case
  proof (cases q)
    case Nil
    then show ?thesis by simp
  next
    case (Cons m q')
    with Suc.prems have "length q' \<le> n" by simp
    then have ih: "run_consumer parse now n q'
                     = (map (\<lambda>m. (m, snd (process_message parse now m))) q', [])"
      by (rule Suc.IH)
    obtain es a where pm: "process_message parse now m = (es, a)"
      by (cases "process_message parse now m")
    then have "broker_settle a m q' = q'"
      using broker_settle_process [of parse now m q'] by simp
    with ih pm show ?thesis
      unfolding Cons by (simp add: on_message_def)
  qed
qed

text \<open>
  Claim C5. The consume callback acknowledges a message when parsing and handling both
  return, and rejects it with \<^verbatim>\<open>requeue = false\<close> when parsing throws or handling
  throws. Either settlement removes the message from the queue, so consuming a queue
  of \<open>length q\<close> messages takes exactly one delivery per message and leaves the queue
  empty: no message is delivered twice.
\<close>

theorem consumer_settles_every_message_once:
  "(parse body = Inr ev \<and> handleTaskEvent now ev = Inr es \<longrightarrow>
      on_message parse now (Some body) = (es, Some Ack))
   \<and> (parse body = Inl e \<longrightarrow>
      on_message parse now (Some body) = ([], Some (Nack False False)))
   \<and> (parse body = Inr ev \<and> handleTaskEvent now ev = Inl e \<longrightarrow>
      on_message parse now (Some body) = ([], Some (Nack False False)))
   \<and> broker_settle Ack body q = q \<and> broker_settle (Nack False False) body q = q
   \<and> run_consumer parse now (length q) q
       = (map (\<lambda>m. (m, snd (process_message parse now m))) q, [])"
  using run_consumer_drains [of q "length q" parse now]
  by (simp add: on_message_def process_message_def)

text \<open>
  The theorem for C5 on a queue of three messages: a valid status change, a payload
  that is not JSON, and a JSON payload without a task.
\<close>

theorem consumer_settles_every_message_once_witness:
  "ex_parse ''status'' = Inr ex_status_changed
   \<and> handleTaskEvent ''now'' ex_status_changed
       = Inr [to_user ''A'' (status_notification ''now'' ex_status_changed ex_task),
              to_user ''C'' (status_notification ''now'' ex_status_changed ex_task),
              broadcast_task_update ex_status_changed ex_task]
   \<and> on_message ex_parse ''now'' (Some ''status'')
       = ([to_user ''A'' (status_notification ''now'' ex_status_changed ex_task),
           to_user ''C'' (status_notification ''now'' ex_status_changed ex_task),
           broadcast_task_update ex_status_changed ex_task], Some Ack)
   \<and> ex_parse ''{'' = Inl SyntaxError
   \<and> on_message ex_parse ''now'' (Some ''{'') = ([], Some (Nack False False))
   \<and> handleTaskEvent ''now'' \<lparr>eventType = [], task = None, actor = [], timestamp = []\<rparr>
       = Inl TypeError
   \<and> on_message ex_parse ''now'' (Some ''{}'') = ([], Some (Nack False False))
   \<and> run_consumer ex_parse ''now'' (length [''status'', ''{'', ''{}'']) [''status'', ''{'', ''{}'']
       = ([(''status'', Ack), (''{'', Nack False False), (''{}'', Nack False False)], [])"
proof -
  have p1: "ex_parse ''status'' = Inr ex_status_changed"
    and p2: "ex_parse ''{'' = Inl SyntaxError"
    and p3: "ex_parse ''{}'' = Inr \<lparr>eventType = [], task = None, actor = [], timestamp = []\<rparr>"
    by (simp_all add: ex_parse_def)
  have h3: "handleTaskEvent ''now'' \<lparr>eventType = [], task = None, actor = [], timestamp = []\<rparr>
       = Inl TypeError"
    by (simp add: handleTaskEvent_def)
  note h1 = ex_status_changed_run
  from consumer_settles_every_message_once
         [of ex_parse "''status''" ex_status_changed "''now''" _ _ "[''status'', ''{'', ''{}'']"]
       consumer_settles_every_message_once [of ex_parse "''{''" _ "''now''" _ SyntaxError]
       consumer_settles_every_message_once
         [of ex_parse "''{}''" "\<lparr>eventType = [], task = None, actor = [], timestamp = []\<rparr>"
             "''now''" _ TypeError]
       p1 p2 p3 h1 h3
  show ?thesis by (simp add: process_message_def)
qed

section \<open>Properties of objects and serialisation\<close>

lemma seq_elems_plain: "seq_elems (map (\<lambda>j. Inr (Some j)) xs) = Inr xs"
  by (induction xs) auto

lemma seq_props_plain: "seq_props (map (map_prod id (\<lambda>j. Inr (Some j))) kvs) = Inr kvs"
  by (induction kvs) auto

lemma serialize_of_json: "serialize (of_json j) = Inr (Some j)"
proof (induction j)
  case (JArr xs)
  then have eq: "map (serialize \<circ> of_json) xs = map (\<lambda>j. Inr (Some j)) xs"
    by (intro map_cong) auto
  show ?case
    unfolding of_json.simps serialize.simps map_map eq seq_elems_plain by simp
next
  case (JObj kvs)
  then have eq: "map (map_prod id serialize \<circ> map_prod id of_json) kvs
             = map (map_prod id (\<lambda>j. Inr (Some j))) kvs"
    by (intro map_cong) (auto simp: snds.simps)
  show ?case
    unfolding of_json.simps serialize.simps map_map eq seq_props_plain by simp
qed simp_all

lemma stringify_plain: "stringify (plain d) = Inr d"
proof -
  have eq: "map (map_prod id serialize \<circ> map_prod id of_json) d
        = map (map_prod id (\<lambda>j. Inr (Some j))) d"
    by (intro map_cong) (auto simp: serialize_of_json)
  show ?thesis
    unfolding stringify_def plain_def map_map eq seq_props_plain ..
qed

lemma map_update:
  "map (map_prod id f) (AList.update k v al) = AList.update k (f v) (map (map_prod id f) al)"
  by (induction al) auto

lemma plain_update: "plain (AList.update k j d) = AList.update k (of_json j) (plain d)"
  by (simp add: plain_def map_update)

lemma plain_spread: "plain (spread dst src) = spread (plain dst) (plain src)"
proof (induction src arbitrary: dst)
  case Nil
  then show ?case by (simp add: spread_def plain_def)
next
  case (Cons p src)
  obtain k v where p: "p = (k, v)" by (cases p)
  have "plain (spread dst (p # src)) = plain (spread (AList.update k v dst) src)"
    by (simp add: spread_def p)
  also have "\<dots> = spread (plain (AList.update k v dst)) (plain src)" by (rule Cons.IH)
  also have "\<dots> = spread (plain dst) (plain (p # src))"
    by (simp add: plain_update spread_def p) (simp add: plain_def)
  finally show ?case .
qed

lemma map_of_spread: "map_of (spread dst src) = map_of dst ++ map_of (rev src)"
proof (induction src arbitrary: dst)
  case Nil
  then show ?case by (simp add: spread_def)
next
  case (Cons p src)
  obtain k v where p: "p = (k, v)" by (cases p)
  have "map_of (spread dst (p # src)) = map_of (spread (AList.update k v dst) src)"
    by (simp add: spread_def p)
  also have "\<dots> = map_of (AList.update k v dst) ++ map_of (rev src)" by (rule Cons.IH)
  also have "\<dots> = (map_of dst)(k \<mapsto> v) ++ map_of (rev src)"
    by (simp only: update_conv')
  also have "\<dots> = map_of dst ++ map_of (rev (p # src))"
    by (simp add: p map_add_def fun_eq_iff split: option.splits)
  finally show ?case .
qed

lemma map_of_rev_distinct:
  assumes "distinct (map fst xs)"
  shows "map_of (rev xs) = map_of xs"
  using assms
proof (induction xs)
  case Nil
  then show ?case by simp
next
  case (Cons p xs)
  obtain k v where p: "p = (k, v)" by (cases p)
  from Cons.prems p have k: "map_of xs k = None" and d: "distinct (map fst xs)"
    by (simp_all add: map_of_eq_None_iff)
  have "map_of (rev (p # xs)) = map_of [(k, v)] ++ map_of (rev xs)"
    by (simp add: p)
  also have "\<dots> = map_of [(k, v)] ++ map_of xs" using Cons.IH [OF d] by simp
  also have "\<dots> = map_of (p # xs)"
    using k by (auto simp: p map_add_def fun_eq_iff split: option.splits)
  finally show ?case .
qed


text \<open>The document of a session whose metadata is plain JSON data.\<close>

lemma sessionData_plain:
  "sessionData s (plain d) now
     = plain (AList.update ''lastSeen'' (JStr now) (spread [(''socketId'', JStr s)] d))"
  by (simp add: sessionData_def plain_update plain_spread) (simp add: plain_def)

lemma stringify_sessionData:
  "stringify (sessionData s (plain d) now)
     = Inr (AList.update ''lastSeen'' (JStr now) (spread [(''socketId'', JStr s)] d))"
  unfolding sessionData_plain by (rule stringify_plain)



lemma session_doc_fields:
  "map_of (AList.update ''lastSeen'' (JStr now) (spread [(''socketId'', JStr s)] d)) ''lastSeen''
     = Some (JStr now)"
  "''socketId'' \<notin> fst ` set d \<Longrightarrow>
   map_of (AList.update ''lastSeen'' (JStr now) (spread [(''socketId'', JStr s)] d)) ''socketId''
     = Some (JStr s)"
  "distinct (map fst d) \<Longrightarrow> map_of d k = Some j \<Longrightarrow> k \<noteq> ''lastSeen'' \<Longrightarrow>
   map_of (AList.update ''lastSeen'' (JStr now) (spread [(''socketId'', JStr s)] d)) k = Some j"
proof -
  show "map_of (AList.update ''lastSeen'' (JStr now) (spread [(''socketId'', JStr s)] d)) ''lastSeen''
     = Some (JStr now)"
    by (simp add: update_conv')
next
  assume "''socketId'' \<notin> fst ` set d"
  then have "map_of (rev d) ''socketId'' = None"
    by (simp add: map_of_eq_None_iff)
  then show "map_of (AList.update ''lastSeen'' (JStr now) (spread [(''socketId'', JStr s)] d)) ''socketId''
     = Some (JStr s)"
    by (simp add: update_conv' map_of_spread map_add_def)
next
  assume "distinct (map fst d)" and "map_of d k = Some j" and "k \<noteq> ''lastSeen''"
  then show "map_of (AList.update ''lastSeen'' (JStr now) (spread [(''socketId'', JStr s)] d)) k = Some j"
    by (simp add: update_conv' map_of_spread map_of_rev_distinct map_add_def)
qed

section \<open>Properties of the Redis helpers\<close>

lemmas io_defs = try_catch_def await_def resolve_def client_call_def JSON_stringify_def Let_def

lemmas cmd_defs = setEx_def get_def del_def sAdd_def sRem_def sMembers_def lPush_def lTrim_def
  lRange_def expire_def

lemma raises_Nil [simp]: "\<not> raises [] i"
  by (simp add: raises_def)

lemma raises_drop: "raises (drop i fs) 0 = raises fs i"
  by (auto simp: raises_def)

lemma storeUserSession_no_throw: "fst (storeUserSession fs now u s m c) = Inr ()"
  by (auto simp: storeUserSession_def try_catch_def resolve_def split: option.splits sum.splits prod.splits)

lemma removeUserSession_no_throw: "fst (removeUserSession fs u c) = Inr ()"
  by (auto simp: removeUserSession_def try_catch_def resolve_def split: option.splits sum.splits prod.splits)

lemma getUserSession_no_throw: "\<exists>r. fst (getUserSession fs u c) = Inr r"
  by (auto simp: getUserSession_def try_catch_def resolve_def split: option.splits sum.splits prod.splits)

lemma getOnlineUsers_no_throw: "\<exists>r. fst (getOnlineUsers fs c) = Inr r"
  by (auto simp: getOnlineUsers_def try_catch_def resolve_def split: option.splits sum.splits prod.splits)

lemma storeOfflineNotification_no_throw: "fst (storeOfflineNotification fs i u n c) = Inr ()"
  by (auto simp: storeOfflineNotification_def try_catch_def resolve_def split: option.splits sum.splits prod.splits)

lemma getOfflineNotifications_no_throw: "\<exists>r. fst (getOfflineNotifications fs u c) = Inr r"
  by (auto simp: getOfflineNotifications_def try_catch_def resolve_def split: option.splits sum.splits prod.splits)

lemma clearOfflineNotifications_no_throw: "fst (clearOfflineNotifications fs u c) = Inr ()"
  by (auto simp: clearOfflineNotifications_def try_catch_def resolve_def split: option.splits sum.splits prod.splits)

lemma first_call_raises:
  assumes "c = None \<or> raises fs 0"
  shows "storeUserSession fs now u s m c = (Inr (), c)
    \<and> removeUserSession fs u c = (Inr (), c)
    \<and> getUserSession fs u c = (Inr None, c)
    \<and> getOnlineUsers fs c = (Inr [], c)
    \<and> storeOfflineNotification fs i u n c = (Inr (), c)
    \<and> getOfflineNotifications fs u c = (Inr [], c)
    \<and> clearOfflineNotifications fs u c = (Inr (), c)"
  using assms
  by (auto simp: storeUserSession_def removeUserSession_def getUserSession_def
                 getOnlineUsers_def storeOfflineNotification_def getOfflineNotifications_def
                 clearOfflineNotifications_def io_defs setEx_def del_def get_def sMembers_def
                 lPush_def lRange_def
           split: option.splits sum.splits)

lemma second_call_raises:
  assumes "\<not> raises fs 0" and "raises fs 1"
  shows "(stringify (sessionData s m now) = Inr doc \<longrightarrow>
          storeUserSession fs now u s m (Some st)
           = (Inr (), Some (st(''user_session:'' @ u \<mapsto> \<lparr>val = RStr doc, ttl = Some 3600\<rparr>))))
    \<and> removeUserSession fs u (Some st) = (Inr (), Some (st(''user_session:'' @ u := None)))"
  using assms
  by (simp add: storeUserSession_def removeUserSession_def io_defs cmd_defs)

lemma lrange_first_50: "lrange xs 0 49 = take 50 xs"
  by (cases xs) (auto simp: lrange_def Let_def min_def)

lemma lrange_all: "lrange xs 0 (- 1) = xs"
  by (cases xs) (auto simp: lrange_def Let_def)

text \<open>
  What one call of \<open>storeOfflineNotification\<close> does to the queue and to its time to
  live, by the first of its client calls that raises.
\<close>

lemma storeOfflineNotification_effect:
  assumes "queue_of c u = Some q" and "stringify (notificationData i n) = Inr doc"
    and "\<not> raises fs 0"
  shows "queue_of (snd (storeOfflineNotification fs i u n c)) u
           = Some (if raises fs 1 then doc # q else take 50 (doc # q))
       \<and> queue_ttl (snd (storeOfflineNotification fs i u n c)) u
           = (if raises fs 1 \<or> raises fs 2 then queue_ttl c u else Some 604800)"
proof -
  from assms(1) obtain st where c: "c = Some st"
    by (cases c) (simp_all add: queue_of_def)
  show ?thesis
  proof (cases "st (''notifications:'' @ u)")
    case None
    with assms c show ?thesis
      by (simp add: storeOfflineNotification_def queue_of_def queue_ttl_def io_defs cmd_defs
                    lrange_first_50)
  next
    case (Some e)
    with assms c obtain xs where "val e = RList xs" "q = xs"
      by (cases "val e") (simp_all add: queue_of_def)
    with Some c assms(2,3) show ?thesis
      by (simp add: storeOfflineNotification_def queue_of_def queue_ttl_def io_defs cmd_defs
                    lrange_first_50)
  qed
qed

lemma lookup_raises:
  assumes "raises fs i"
  shows "for_userIds fs i (u # rest) acc (Some st) = for_userIds fs (Suc i) rest acc (Some st)"
  using assms
  by (simp add: getUserSession_def raises_drop io_defs cmd_defs)

text \<open>
  Claim C6, as amended. None of the seven operations throws, whatever the client, the
  arguments and whichever calls raise. When the client is absent or the first client
  call of the operation raises, a write leaves the state unchanged and a read returns
  \<open>None\<close> (\<open>getUserSession\<close>) or the empty list. When the first call succeeds and the
  second raises, \<open>storeUserSession\<close> has written the session record and
  \<open>removeUserSession\<close> has deleted it. When the push of \<open>storeOfflineNotification\<close>
  succeeds, the entry is at the head of the queue; the queue is trimmed to 50 entries
  unless the trim raises, and its time to live is set to seven days unless the trim or
  the \<^verbatim>\<open>expire\<close> call raises, in which case it is left as it was. In
  \<open>getOnlineUsers\<close>, a session lookup that raises leaves that user out and the loop goes
  on with the next one.
\<close>

theorem store_operations_never_throw:
  "fst (storeUserSession fs now u s m c) = Inr ()
   \<and> fst (removeUserSession fs u c) = Inr ()
   \<and> (\<exists>r. fst (getUserSession fs u c) = Inr r)
   \<and> (\<exists>r. fst (getOnlineUsers fs c) = Inr r)
   \<and> fst (storeOfflineNotification fs i u n c) = Inr ()
   \<and> (\<exists>r. fst (getOfflineNotifications fs u c) = Inr r)
   \<and> fst (clearOfflineNotifications fs u c) = Inr ()
   \<and> (c = None \<or> raises fs 0 \<longrightarrow>
        storeUserSession fs now u s m c = (Inr (), c)
        \<and> removeUserSession fs u c = (Inr (), c)
        \<and> getUserSession fs u c = (Inr None, c)
        \<and> getOnlineUsers fs c = (Inr [], c)
        \<and> storeOfflineNotification fs i u n c = (Inr (), c)
        \<and> getOfflineNotifications fs u c = (Inr [], c)
        \<and> clearOfflineNotifications fs u c = (Inr (), c))
   \<and> (\<not> raises fs 0 \<and> raises fs 1 \<longrightarrow>
        (stringify (sessionData s m now) = Inr doc \<longrightarrow>
           storeUserSession fs now u s m (Some st)
             = (Inr (), Some (st(''user_session:'' @ u
                  \<mapsto> \<lparr>val = RStr doc, ttl = Some 3600\<rparr>))))
        \<and> removeUserSession fs u (Some st) = (Inr (), Some (st(''user_session:'' @ u := None))))
   \<and> (\<not> raises fs 0 \<and> queue_of c u = Some q \<and> stringify (notificationData i n) = Inr entry \<longrightarrow>
        queue_of (snd (storeOfflineNotification fs i u n c)) u
          = Some (if raises fs 1 then entry # q else take 50 (entry # q))
        \<and> queue_ttl (snd (storeOfflineNotification fs i u n c)) u
          = (if raises fs 1 \<or> raises fs 2 then queue_ttl c u else Some 604800))
   \<and> (raises fs j \<longrightarrow>
        for_userIds fs j (u # rest) acc (Some st) = for_userIds fs (Suc j) rest acc (Some st))"
proof -
  have nt: "fst (storeUserSession fs now u s m c) = Inr ()
   \<and> fst (removeUserSession fs u c) = Inr ()
   \<and> (\<exists>r. fst (getUserSession fs u c) = Inr r)
   \<and> (\<exists>r. fst (getOnlineUsers fs c) = Inr r)
   \<and> fst (storeOfflineNotification fs i u n c) = Inr ()
   \<and> (\<exists>r. fst (getOfflineNotifications fs u c) = Inr r)
   \<and> fst (clearOfflineNotifications fs u c) = Inr ()"
    using storeUserSession_no_throw [of fs now u s m c] removeUserSession_no_throw [of fs u c]
      getUserSession_no_throw [of fs u c] getOnlineUsers_no_throw [of fs c]
      storeOfflineNotification_no_throw [of fs i u n c]
      getOfflineNotifications_no_throw [of fs u c] clearOfflineNotifications_no_throw [of fs u c]
    by simp
  have first: "c = None \<or> raises fs 0 \<longrightarrow>
        storeUserSession fs now u s m c = (Inr (), c)
        \<and> removeUserSession fs u c = (Inr (), c)
        \<and> getUserSession fs u c = (Inr None, c)
        \<and> getOnlineUsers fs c = (Inr [], c)
        \<and> storeOfflineNotification fs i u n c = (Inr (), c)
        \<and> getOfflineNotifications fs u c = (Inr [], c)
        \<and> clearOfflineNotifications fs u c = (Inr (), c)"
    by (rule impI) (rule first_call_raises)
  have second: "\<not> raises fs 0 \<and> raises fs 1 \<longrightarrow>
        (stringify (sessionData s m now) = Inr doc \<longrightarrow>
           storeUserSession fs now u s m (Some st)
             = (Inr (), Some (st(''user_session:'' @ u
                  \<mapsto> \<lparr>val = RStr doc, ttl = Some 3600\<rparr>))))
        \<and> removeUserSession fs u (Some st) = (Inr (), Some (st(''user_session:'' @ u := None)))"
    by (intro impI, elim conjE) (rule second_call_raises)
  have offline: "\<not> raises fs 0 \<and> queue_of c u = Some q
          \<and> stringify (notificationData i n) = Inr entry \<longrightarrow>
        queue_of (snd (storeOfflineNotification fs i u n c)) u
          = Some (if raises fs 1 then entry # q else take 50 (entry # q))
        \<and> queue_ttl (snd (storeOfflineNotification fs i u n c)) u
          = (if raises fs 1 \<or> raises fs 2 then queue_ttl c u else Some 604800)"
    by (intro impI, elim conjE) (rule storeOfflineNotification_effect)
  have lookup: "raises fs j \<longrightarrow>
        for_userIds fs j (u # rest) acc (Some st) = for_userIds fs (Suc j) rest acc (Some st)"
    by (rule impI) (rule lookup_raises)
  from nt first second offline lookup show ?thesis by (simp only: simp_thms)
qed

lemmas obj_eval = sessionData_def notificationData_def spread_def stringify_def plain_def

text \<open>
  The theorem for C6 on a store whose first call raises, on a store whose second call
  raises, on a full queue when \<^verbatim>\<open>expire\<close> raises, and on a session lookup that raises.
\<close>

theorem store_operations_never_throw_witness:
  "raises [True] 0
   \<and> storeUserSession [True] ''t1'' ''u1'' ''s1'' [] (Some Map.empty) = (Inr (), Some Map.empty)
   \<and> getUserSession [True] ''u1'' (Some Map.empty) = (Inr None, Some Map.empty)
   \<and> getOnlineUsers [True] (Some Map.empty) = (Inr [], Some Map.empty)
   \<and> getOfflineNotifications [True] ''u1'' (Some Map.empty) = (Inr [], Some Map.empty)
   \<and> \<not> raises [False, True] 0 \<and> raises [False, True] 1
   \<and> stringify (sessionData ''s1'' [] ''t1'')
       = Inr [(''socketId'', JStr ''s1''), (''lastSeen'', JStr ''t1'')]
   \<and> storeUserSession [False, True] ''t1'' ''u1'' ''s1'' [] (Some Map.empty)
       = (Inr (), Some [''user_session:u1''
            \<mapsto> \<lparr>val = RStr [(''socketId'', JStr ''s1''), (''lastSeen'', JStr ''t1'')],
                ttl = Some 3600\<rparr>])
   \<and> queue_of ex_full_queue ''u1'' = Some (replicate 50 [])
   \<and> stringify (notificationData ''id1'' []) = Inr [(''id'', JStr ''id1''), (''stored'', JBool True)]
   \<and> queue_of (snd (storeOfflineNotification [False, False, True] ''id1'' ''u1'' [] ex_full_queue))
         ''u1''
       = Some ([(''id'', JStr ''id1''), (''stored'', JBool True)] # replicate 49 [])
   \<and> queue_ttl (snd (storeOfflineNotification [False, False, True] ''id1'' ''u1'' [] ex_full_queue))
         ''u1''
       = Some 10
   \<and> for_userIds [False, True] 1 [''u1''] [] (Some Map.empty) = (Inr [], Some Map.empty)"
proof -
  have r: "raises [True] 0" "\<not> raises [False, True] 0" "raises [False, True] 1"
    "\<not> raises [False, False, True] 0" "\<not> raises [False, False, True] 1"
    "raises [False, False, True] 2"
    by (simp_all add: raises_def)
  have d: "stringify (sessionData ''s1'' [] ''t1'')
       = Inr [(''socketId'', JStr ''s1''), (''lastSeen'', JStr ''t1'')]"
    "stringify (notificationData ''id1'' []) = Inr [(''id'', JStr ''id1''), (''stored'', JBool True)]"
    by (simp_all add: obj_eval)
  have q: "queue_of ex_full_queue ''u1'' = Some (replicate 50 [])"
    "queue_ttl ex_full_queue ''u1'' = Some 10"
    by (simp_all add: queue_of_def queue_ttl_def ex_full_queue_def)
  from store_operations_never_throw
         [where fs = "[True]" and now = "''t1''" and u = "''u1''" and s = "''s1''"
            and m = "[]" and c = "Some Map.empty"]
       store_operations_never_throw
         [where fs = "[False, True]" and now = "''t1''" and u = "''u1''" and s = "''s1''"
            and m = "[]" and st = Map.empty and j = 1 and rest = "[]" and acc = "[]"
            and doc = "[(''socketId'', JStr ''s1''), (''lastSeen'', JStr ''t1'')]"]
       store_operations_never_throw
         [where fs = "[False, False, True]" and u = "''u1''" and i = "''id1''" and n = "[]"
            and c = ex_full_queue and q = "replicate 50 []"
            and entry = "[(''id'', JStr ''id1''), (''stored'', JBool True)]"]
       r d q
  show ?thesis by simp
qed

text \<open>
  Claim C6 as stated fails: when \<^verbatim>\<open>sAdd\<close> raises after \<^verbatim>\<open>setEx\<close> has succeeded,
  \<open>storeUserSession\<close> returns normally and the session record is stored, so the write
  has had an effect that \<open>getUserSession\<close> observes.
\<close>

theorem failed_second_call_keeps_first_effect:
  "raises [False, True] 1
   \<and> fst (getUserSession [] ''u1'' (Some Map.empty)) = Inr None
   \<and> storeUserSession [False, True] ''t1'' ''u1'' ''s1'' [] (Some Map.empty)
       = (Inr (), Some [''user_session:u1''
            \<mapsto> \<lparr>val = RStr [(''socketId'', JStr ''s1''), (''lastSeen'', JStr ''t1'')],
                ttl = Some 3600\<rparr>])
   \<and> fst (getUserSession [] ''u1''
            (snd (storeUserSession [False, True] ''t1'' ''u1'' ''s1'' [] (Some Map.empty))))
       = Inr (Some [(''socketId'', JStr ''s1''), (''lastSeen'', JStr ''t1'')])"
  by (simp add: raises_def storeUserSession_def getUserSession_def io_defs cmd_defs obj_eval)

lemma storeUserSession_writes:
  assumes "stringify (sessionData s m now) = Inr doc"
  shows "\<exists>st'. snd (storeUserSession [] now u s m (Some st)) = Some st'
         \<and> st' (''user_session:'' @ u) = Some \<lparr>val = RStr doc, ttl = Some 3600\<rparr>"
  using assms
  by (auto simp: storeUserSession_def io_defs cmd_defs split: option.splits rvalue.splits)

lemma getUserSession_reads:
  "st (''user_session:'' @ u) = Some \<lparr>val = RStr d, ttl = t\<rparr> \<Longrightarrow>
   getUserSession [] u (Some st) = (Inr (Some d), Some st)"
  by (simp add: getUserSession_def io_defs cmd_defs)

lemma getUserSession_absent:
  "st (''user_session:'' @ u) = None \<Longrightarrow>
   getUserSession [] u (Some st) = (Inr None, Some st)"
  by (simp add: getUserSession_def io_defs cmd_defs)

lemma removeUserSession_deletes:
  "\<exists>st'. snd (removeUserSession [] u (Some st)) = Some st' \<and> st' (''user_session:'' @ u) = None"
  by (auto simp: removeUserSession_def io_defs cmd_defs split: option.splits rvalue.splits)

lemma store_then_get:
  assumes "stringify (sessionData s m now) = Inr doc"
  shows "fst (getUserSession [] u (snd (storeUserSession [] now u s m (Some st)))) = Inr (Some doc)"
proof -
  from storeUserSession_writes [OF assms, where u = u and st = st] obtain st' where
    "snd (storeUserSession [] now u s m (Some st)) = Some st'"
    "st' (''user_session:'' @ u) = Some \<lparr>val = RStr doc, ttl = Some 3600\<rparr>"
    by blast
  then show ?thesis by (simp add: getUserSession_reads)
qed

lemma store_remove_get:
  "fst (getUserSession [] u (snd (removeUserSession [] u c))) = Inr None"
proof (cases c)
  case None
  then show ?thesis by (simp add: removeUserSession_def getUserSession_def)
next
  case (Some st)
  from removeUserSession_deletes [of u st] obtain st' where
    "snd (removeUserSession [] u (Some st)) = Some st'" "st' (''user_session:'' @ u) = None"
    by blast
  with Some show ?thesis by (simp add: getUserSession_absent)
qed

text \<open>
  Claim C7, as amended. On a reachable store and for metadata that is plain JSON data,
  \<open>getUserSession\<close> right after \<open>storeUserSession\<close> returns the document
  \<^verbatim>\<open>{ socketId, ...userData, lastSeen }\<close>: it has the time of the call as
  \<^verbatim>\<open>lastSeen\<close>, the session id as \<^verbatim>\<open>socketId\<close> unless the metadata has a property of
  that name, and every property of the metadata other than \<^verbatim>\<open>lastSeen\<close> (the property
  names of an object being distinct). After \<open>removeUserSession\<close>, whatever the metadata
  was, \<open>getUserSession\<close> returns \<open>None\<close>.
\<close>

theorem session_round_trip:
  "fst (getUserSession [] u (snd (storeUserSession [] now u s (plain d) (Some st))))
     = Inr (Some (AList.update ''lastSeen'' (JStr now) (spread [(''socketId'', JStr s)] d)))
   \<and> map_of (AList.update ''lastSeen'' (JStr now) (spread [(''socketId'', JStr s)] d)) ''lastSeen''
       = Some (JStr now)
   \<and> (''socketId'' \<notin> fst ` set d \<longrightarrow>
        map_of (AList.update ''lastSeen'' (JStr now) (spread [(''socketId'', JStr s)] d))
          ''socketId'' = Some (JStr s))
   \<and> (\<forall>k j. distinct (map fst d) \<and> map_of d k = Some j \<and> k \<noteq> ''lastSeen'' \<longrightarrow>
        map_of (AList.update ''lastSeen'' (JStr now) (spread [(''socketId'', JStr s)] d)) k
          = Some j)
   \<and> fst (getUserSession [] u
            (snd (removeUserSession [] u (snd (storeUserSession [] now u s m (Some st))))))
       = Inr None"
proof -
  have "stringify (sessionData s (plain d) now)
          = Inr (AList.update ''lastSeen'' (JStr now) (spread [(''socketId'', JStr s)] d))"
    by (rule stringify_sessionData)
  then have "fst (getUserSession [] u (snd (storeUserSession [] now u s (plain d) (Some st))))
     = Inr (Some (AList.update ''lastSeen'' (JStr now) (spread [(''socketId'', JStr s)] d)))"
    by (rule store_then_get)
  then have get: "fst (getUserSession [] u (snd (storeUserSession [] now u s (plain d) (Some st))))
     = Inr (Some (AList.update ''lastSeen'' (JStr now) (spread [(''socketId'', JStr s)] d)))" .
  have seen: "map_of (AList.update ''lastSeen'' (JStr now) (spread [(''socketId'', JStr s)] d))
                ''lastSeen'' = Some (JStr now)"
    by (rule session_doc_fields)
  have sock: "''socketId'' \<notin> fst ` set d \<longrightarrow>
        map_of (AList.update ''lastSeen'' (JStr now) (spread [(''socketId'', JStr s)] d))
          ''socketId'' = Some (JStr s)"
    by (rule impI) (rule session_doc_fields)
  have fields: "\<forall>k j. distinct (map fst d) \<and> map_of d k = Some j \<and> k \<noteq> ''lastSeen'' \<longrightarrow>
        map_of (AList.update ''lastSeen'' (JStr now) (spread [(''socketId'', JStr s)] d)) k
          = Some j"
    by (intro allI impI, elim conjE) (rule session_doc_fields)
  have removed: "fst (getUserSession [] u
            (snd (removeUserSession [] u (snd (storeUserSession [] now u s m (Some st))))))
       = Inr None"
    by (rule store_remove_get)
  from get seen sock fields removed show ?thesis by (simp only: simp_thms)
qed

text \<open>
  The theorem for C7 with the metadata that the connection handler passes: email, role
  and connection time.
\<close>

theorem session_round_trip_witness:
  "''socketId'' \<notin> fst ` set ex_userData \<and> distinct (map fst ex_userData)
   \<and> map_of ex_userData ''email'' = Some (JStr ''a@example.org'') \<and> ''email'' \<noteq> ''lastSeen''
   \<and> fst (getUserSession [] ''u1''
            (snd (storeUserSession [] ''t1'' ''u1'' ''s1'' (plain ex_userData) (Some Map.empty))))
       = Inr (Some [(''socketId'', JStr ''s1''), (''email'', JStr ''a@example.org''),
                    (''role'', JStr ''admin''), (''connectedAt'', JStr ''t0''),
                    (''lastSeen'', JStr ''t1'')])
   \<and> fst (getUserSession [] ''u1''
            (snd (removeUserSession [] ''u1''
               (snd (storeUserSession [] ''t1'' ''u1'' ''s1'' (plain ex_userData) (Some Map.empty))))))
       = Inr None"
proof -
  have h: "''socketId'' \<notin> fst ` set ex_userData" "distinct (map fst ex_userData)"
    "map_of ex_userData ''email'' = Some (JStr ''a@example.org'')" "''email'' \<noteq> ''lastSeen''"
    by (simp_all add: ex_userData_def)
  have e: "AList.update ''lastSeen'' (JStr ''t1'') (spread [(''socketId'', JStr ''s1'')] ex_userData)
       = [(''socketId'', JStr ''s1''), (''email'', JStr ''a@example.org''),
          (''role'', JStr ''admin''), (''connectedAt'', JStr ''t0''), (''lastSeen'', JStr ''t1'')]"
    by (simp add: ex_userData_def spread_def)
  from session_round_trip [where u = "''u1''" and now = "''t1''" and s = "''s1''"
                              and d = ex_userData and st = Map.empty and m = "plain ex_userData"]
       h e
  show ?thesis by simp
qed

text \<open>
  Claim C7 as stated fails. Metadata with a property \<^verbatim>\<open>socketId\<close> replaces the session
  id, so the record read back does not contain the session id \<^verbatim>\<open>s1\<close>. A property
  whose value is \<^verbatim>\<open>NaN\<close> is read back as \<^verbatim>\<open>null\<close>. Metadata with a BigInt makes
  \<^verbatim>\<open>JSON.stringify\<close> throw, so nothing is stored and nothing is read back.
\<close>

theorem metadata_not_read_back:
  "fst (getUserSession [] ''u1''
          (snd (storeUserSession [] ''t1'' ''u1'' ''s1'' [(''socketId'', VStr ''s0'')]
                  (Some Map.empty))))
     = Inr (Some [(''socketId'', JStr ''s0''), (''lastSeen'', JStr ''t1'')])
   \<and> fst (getUserSession [] ''u1''
          (snd (storeUserSession [] ''t1'' ''u1'' ''s1'' [(''load'', VNaN)] (Some Map.empty))))
     = Inr (Some [(''socketId'', JStr ''s1''), (''load'', JNull), (''lastSeen'', JStr ''t1'')])
   \<and> fst (getUserSession [] ''u1''
          (snd (storeUserSession [] ''t1'' ''u1'' ''s1'' [(''size'', VBigInt 1)] (Some Map.empty))))
     = Inr None"
  by (simp add: storeUserSession_def getUserSession_def io_defs cmd_defs obj_eval)






text \<open>
  Claim C8. On a reachable store, after \<open>clearOfflineNotifications\<close> the queue of the
  user is empty and \<open>getOfflineNotifications\<close> returns the empty list, and a second
  clear leaves the state as the first clear left it.
\<close>

theorem clear_then_get_empty:
  "fst (getOfflineNotifications [] u (snd (clearOfflineNotifications [] u (Some st)))) = Inr []
   \<and> queue_of (snd (clearOfflineNotifications [] u (Some st))) u = Some []
   \<and> snd (clearOfflineNotifications [] u (snd (clearOfflineNotifications [] u (Some st))))
       = snd (clearOfflineNotifications [] u (Some st))"
  by (simp add: clearOfflineNotifications_def getOfflineNotifications_def queue_of_def
                io_defs cmd_defs)

text \<open>
  The theorem for C8 on a store where the queue of the user holds 50 entries.
\<close>

theorem clear_then_get_empty_witness:
  "queue_of ex_full_queue ''u1'' = Some (replicate 50 [])
   \<and> fst (getOfflineNotifications [] ''u1''
            (snd (clearOfflineNotifications [] ''u1'' ex_full_queue))) = Inr []
   \<and> snd (clearOfflineNotifications [] ''u1''
            (snd (clearOfflineNotifications [] ''u1'' ex_full_queue)))
       = snd (clearOfflineNotifications [] ''u1'' ex_full_queue)"
  using clear_then_get_empty
          [of "''u1''" "[''notifications:u1''
                           \<mapsto> \<lparr>val = RList (replicate 50 []), ttl = Some 10\<rparr>]"]
  by (simp add: ex_full_queue_def queue_of_def)

section \<open>Properties of the socket handlers\<close>

lemma getOfflineNotifications_result:
  "fst (getOfflineNotifications fs u c)
     = Inr (case queue_of c u of
              None \<Rightarrow> []
            | Some q \<Rightarrow> if raises fs 0 then [] else q)"
  by (auto simp: getOfflineNotifications_def queue_of_def io_defs cmd_defs lrange_all
           split: option.splits rvalue.splits)

text \<open>
  Claim C10. The handler of \<^verbatim>\<open>get:offline_notifications\<close> emits one
  \<^verbatim>\<open>notifications:offline\<close> event with the stored queue to the requesting socket if
  the queue is not empty and the store call does not raise, and emits nothing in every
  other case: an empty queue, a missing client, a call that raises.
\<close>

theorem offline_notifications_emitted_iff_nonempty:
  "fst (on_get_offline_notifications fs i u c)
     = (case queue_of c (uid u) of
          None \<Rightarrow> []
        | Some q \<Rightarrow>
            if q \<noteq> [] \<and> \<not> raises fs 0
            then [Emit (ThisSocket i) ''notifications:offline'' (OfflineNotifications q)]
            else [])"
proof -
  obtain r c' where g: "getOfflineNotifications fs (uid u) c = (r, c')"
    by (cases "getOfflineNotifications fs (uid u) c")
  with getOfflineNotifications_result [of fs "uid u" c]
  show ?thesis
    by (auto simp: on_get_offline_notifications_def split: option.splits)
qed

text \<open>
  The theorem for C10 on a full queue, on a call that raises, on an empty store and
  without a client.
\<close>

theorem offline_notifications_emitted_iff_nonempty_witness:
  "queue_of ex_full_queue ''u1'' = Some (replicate 50 [])
   \<and> fst (on_get_offline_notifications [] ''s1'' (ex_user ''u1'' ''admin'') ex_full_queue)
       = [Emit (ThisSocket ''s1'') ''notifications:offline''
            (OfflineNotifications (replicate 50 []))]
   \<and> fst (on_get_offline_notifications [True] ''s1'' (ex_user ''u1'' ''admin'') ex_full_queue) = []
   \<and> fst (on_get_offline_notifications [] ''s1'' (ex_user ''u1'' ''admin'') (Some Map.empty)) = []
   \<and> fst (on_get_offline_notifications [] ''s1'' (ex_user ''u1'' ''admin'') None) = []"
proof -
  have h: "queue_of ex_full_queue ''u1'' = Some (replicate 50 [])"
    "queue_of (Some Map.empty) ''u1'' = Some []" "queue_of None ''u1'' = None"
    by (simp_all add: queue_of_def ex_full_queue_def)
  have u: "uid (ex_user ''u1'' ''admin'') = ''u1''" by (simp add: ex_user_def)
  from offline_notifications_emitted_iff_nonempty
         [of "[]" "''s1''" "ex_user ''u1'' ''admin''" ex_full_queue]
       offline_notifications_emitted_iff_nonempty
         [of "[True]" "''s1''" "ex_user ''u1'' ''admin''" ex_full_queue]
       offline_notifications_emitted_iff_nonempty
         [of "[]" "''s1''" "ex_user ''u1'' ''admin''" "Some Map.empty"]
       offline_notifications_emitted_iff_nonempty
         [of "[]" "''s1''" "ex_user ''u1'' ''admin''" None]
       h u
  show ?thesis by (simp add: raises_def)
qed

lemma forEach_socket_acc:
  "forEach_socket s cs acc
     = acc @ map (\<lambda>c. \<lparr>oe_userId = uid (the (suser c)), oe_email = uemail (the (suser c)),
                       oe_role = role (the (suser c))\<rparr>)
               (filter (\<lambda>c. suser c \<noteq> None \<and> sid c \<noteq> sid s) cs)"
  by (induction cs arbitrary: acc) (auto split: option.splits)

lemma filter_other_sids:
  assumes "distinct (map sid cs)" and "s \<in> set cs"
  shows "filter (\<lambda>c. sid c \<noteq> sid s) cs = remove1 s cs"
  using assms
proof (induction cs)
  case Nil
  then show ?case by simp
next
  case (Cons c cs)
  show ?case
  proof (cases "c = s")
    case True
    with Cons.prems(1) have "sid s \<notin> sid ` set cs" by simp
    then have "\<forall>x\<in>set cs. sid x \<noteq> sid s" by (auto simp: image_iff)
    then have "filter (\<lambda>c. sid c \<noteq> sid s) cs = cs" by (simp add: filter_id_conv)
    with True show ?thesis by simp
  next
    case False
    with Cons.prems have "s \<in> set cs" and "sid c \<noteq> sid s" by auto
    with Cons show ?thesis using False by simp
  qed
qed

text \<open>
  Claim C9. The \<^verbatim>\<open>online_users\<close> response goes to the requesting socket and lists, in
  the order of the registry, one entry with the user id, the email and the role of the
  user of each connected socket that has a user and whose id differs from the
  requesting socket's. When the socket ids of the registry are distinct and the
  requesting socket is in it, these are exactly the authenticated sockets of the
  registry without the requesting socket.
\<close>

theorem online_users_excludes_requesting_socket:
  "on_get_online_users s sockets
     = Emit (ThisSocket (sid s)) ''online_users''
         (OnlineUsers
            (map (\<lambda>c. \<lparr>oe_userId = uid (the (suser c)), oe_email = uemail (the (suser c)),
                        oe_role = role (the (suser c))\<rparr>)
               (filter (\<lambda>c. suser c \<noteq> None \<and> sid c \<noteq> sid s) sockets)))
   \<and> (distinct (map sid sockets) \<and> s \<in> set sockets \<longrightarrow>
        filter (\<lambda>c. suser c \<noteq> None \<and> sid c \<noteq> sid s) sockets
          = filter (\<lambda>c. suser c \<noteq> None) (remove1 s sockets))"
proof -
  have 1: "on_get_online_users s sockets
     = Emit (ThisSocket (sid s)) ''online_users''
         (OnlineUsers
            (map (\<lambda>c. \<lparr>oe_userId = uid (the (suser c)), oe_email = uemail (the (suser c)),
                        oe_role = role (the (suser c))\<rparr>)
               (filter (\<lambda>c. suser c \<noteq> None \<and> sid c \<noteq> sid s) sockets)))"
    unfolding on_get_online_users_def forEach_socket_acc by simp
  have 2: "filter (\<lambda>c. suser c \<noteq> None \<and> sid c \<noteq> sid s) sockets
          = filter (\<lambda>c. suser c \<noteq> None) (remove1 s sockets)"
    if "distinct (map sid sockets)" and "s \<in> set sockets"
  proof -
    have "filter (\<lambda>c. suser c \<noteq> None \<and> sid c \<noteq> sid s) sockets
          = filter (\<lambda>c. suser c \<noteq> None) (filter (\<lambda>c. sid c \<noteq> sid s) sockets)"
      unfolding filter_filter by (rule filter_cong) auto
    with that show ?thesis by (simp only: filter_other_sids)
  qed
  from 1 2 show ?thesis by blast
qed

text \<open>
  The theorem for C9 on a registry of four sockets, one of them without a user. The
  requester's own socket is left out; a second socket of the same user is listed.
\<close>

theorem online_users_excludes_requesting_socket_witness:
  "distinct (map sid ex_sockets) \<and> on_connection ''s1'' (ex_user ''A'' ''admin'') \<in> set ex_sockets
   \<and> on_get_online_users (on_connection ''s1'' (ex_user ''A'' ''admin'')) ex_sockets
       = Emit (ThisSocket ''s1'') ''online_users''
           (OnlineUsers
              [\<lparr>oe_userId = ''B'', oe_email = ''B@example.org'', oe_role = ''team_member''\<rparr>,
               \<lparr>oe_userId = ''A'', oe_email = ''A@example.org'', oe_role = ''admin''\<rparr>])"
proof -
  have h: "distinct (map sid ex_sockets)"
    "on_connection ''s1'' (ex_user ''A'' ''admin'') \<in> set ex_sockets"
    by (simp_all add: ex_sockets_def on_connection_def)
  from online_users_excludes_requesting_socket
         [of "on_connection ''s1'' (ex_user ''A'' ''admin'')" ex_sockets] h
  show ?thesis by (simp add: ex_sockets_def on_connection_def ex_user_def)
qed

end
